theory Spec2Isabelle
  imports Complex_Main "HOL-Library.List_Lexorder" "HOL-Library.Char_ord"
begin

section \<open>Data model\<close>

text \<open>
  The three tables of the ledger service (\<^verbatim>\<open>prisma/migrations/.../migration.sql\<close>) and the
  rows the service in \<^verbatim>\<open>services/ledgerService.js\<close> reads and writes. Field names carry a
  one-letter prefix for the table (\<open>a_\<close> Account, \<open>t_\<close> Transaction, \<open>e_\<close> LedgerEntry).

  A \<open>uuid\<close> is a value of a \<^verbatim>\<open>UUID\<close> column, in the text the storage returns for it. The
  identifiers a request carries are strings that spell such a value: several spellings
  (capital or small hexadecimal digits, for one) denote the same value. Values of
  \<^verbatim>\<open>DECIMAL(20,8)\<close> columns are exact rationals. \<^verbatim>\<open>entryType\<close> is a \<^verbatim>\<open>TEXT\<close> column, so it is
  a string here as well.
\<close>

type_synonym uuid = string

record account =
  a_id :: uuid
  a_userId :: string
  a_accountType :: string
  a_currency :: string
  a_status :: string
  a_balance :: rat

record transaction =
  t_id :: uuid
  t_type :: string
  t_sourceAccountId :: "uuid option"
  t_destinationAccountId :: "uuid option"
  t_amount :: rat
  t_currency :: string
  t_status :: string
  t_createdAt :: nat

record ledgerEntry =
  e_id :: uuid
  e_accountId :: uuid
  e_transactionId :: uuid
  e_entryType :: string
  e_amount :: rat
  e_currency :: string
  e_createdAt :: nat

text \<open>
  The storage seen by one request at a time: the three tables, in insertion order, and the
  parameters of the row-lock statements (\<^verbatim>\<open>SELECT ... FOR UPDATE\<close>) that were executed, in
  order. Interleavings of concurrent requests are outside this model.
\<close>

record database =
  accounts :: "account list"
  transactions :: "transaction list"
  ledgerEntries :: "ledgerEntry list"
  lockLog :: "string list"

text \<open>
  How an identifier string is read as a \<open>uuid\<close> is fixed outside the repository, by
  the storage engine and its client, so it is a parameter of every operation that
  passes an identifier to the storage: \<open>cast_uuid\<close> is the reading of the parameter of
  \<^verbatim>\<open>$1::uuid\<close> in the raw lock statement, \<open>client_uuid\<close> the reading of an identifier
  given to a query of the client for a \<^verbatim>\<open>UUID\<close> column. \<open>None\<close> is a string that is refused:
  the statement throws.
\<close>

record uuid_readers =
  cast_uuid :: "string \<Rightarrow> uuid option"
  client_uuid :: "string \<Rightarrow> uuid option"

text \<open>
  Errors a request can end in: the service's own \<^verbatim>\<open>UnprocessableEntity\<close> with its message,
  the \<^verbatim>\<open>DecimalError\<close> of \<^verbatim>\<open>new Decimal\<close> on an argument that is no numeral, and a failure
  reported by the storage or its client.
\<close>

datatype error = UnprocessableEntity string | DecimalError | StorageError

section \<open>Decimals\<close>

text \<open>
  A \<^verbatim>\<open>Decimal\<close> of decimal.js is a finite exact decimal, \<^verbatim>\<open>NaN\<close> or an infinity.
  The comparisons follow \<^verbatim>\<open>Decimal.cmp\<close>: every comparison with \<^verbatim>\<open>NaN\<close> is false.
\<close>

datatype decimal = NaN | Infinity | NegInfinity | Dec rat

definition isNaN :: "decimal \<Rightarrow> bool" where
  "isNaN d = (d = NaN)"

fun lessThan_decimal :: "decimal \<Rightarrow> decimal \<Rightarrow> bool" where
  "lessThan_decimal NaN y = False"
| "lessThan_decimal x NaN = False"
| "lessThan_decimal Infinity y = False"
| "lessThan_decimal NegInfinity NegInfinity = False"
| "lessThan_decimal NegInfinity y = True"
| "lessThan_decimal (Dec a) Infinity = True"
| "lessThan_decimal (Dec a) NegInfinity = False"
| "lessThan_decimal (Dec a) (Dec b) = (a < b)"

definition lessThanOrEqualTo :: "decimal \<Rightarrow> decimal \<Rightarrow> bool" where
  "lessThanOrEqualTo x y =
     (if isNaN x then False else if isNaN y then False
      else if x = y then True else lessThan_decimal x y)"

text \<open>
  \<^verbatim>\<open>Decimal.plus\<close> and \<^verbatim>\<open>Decimal.minus\<close> round their result to the precision of the
  constructor, which the repository leaves at the default of decimal.js: 20 significant
  digits, a tie going away from zero (\<^verbatim>\<open>ROUND_HALF_UP\<close>). A value whose decimal exponent
  is \<open>e\<close> is rounded to a multiple of \<open>10^(e - 19)\<close>.
\<close>

fun digits10 :: "nat \<Rightarrow> nat" where
  "digits10 n = (if n = 0 then 0 else Suc (digits10 (n div 10)))"

declare digits10.simps [simp del]

definition pow10 :: "int \<Rightarrow> rat" where
  "pow10 e = (if 0 \<le> e then 10 ^ nat e else 1 / 10 ^ nat (- e))"

text \<open>The decimal exponent \<open>\<lfloor>log\<^sub>1\<^sub>0 a\<rfloor>\<close> of a positive rational.\<close>

definition floor_log10 :: "rat \<Rightarrow> int" where
  "floor_log10 a =
     (if 1 \<le> a then int (digits10 (nat \<lfloor>a\<rfloor>)) - 1
      else - int (digits10 (nat (\<lceil>1 / a\<rceil> - 1))))"

definition round_half_up :: "rat \<Rightarrow> rat \<Rightarrow> rat" where
  "round_half_up q a = of_int \<lfloor>a / q + 1 / 2\<rfloor> * q"

definition precision20 :: "rat \<Rightarrow> rat" where
  "precision20 x =
     (if x = 0 then 0
      else if x < 0 then - round_half_up (pow10 (floor_log10 (- x) - 19)) (- x)
      else round_half_up (pow10 (floor_log10 x - 19)) x)"

definition plus_decimal :: "rat \<Rightarrow> rat \<Rightarrow> rat" where
  "plus_decimal x y = precision20 (x + y)"

definition minus_decimal :: "rat \<Rightarrow> rat \<Rightarrow> rat" where
  "minus_decimal x y = precision20 (x - y)"

section \<open>Balance calculator\<close>

text \<open>
  \<^verbatim>\<open>tx.ledgerEntry.findMany({ where: { accountId } })\<close>: the client reads the identifier and
  the rows of that account are returned. The query has no \<^verbatim>\<open>orderBy\<close>; the rows come in the
  order of the table.
\<close>

definition ledgerEntry_findMany ::
  "uuid_readers \<Rightarrow> database \<Rightarrow> string \<Rightarrow> error + ledgerEntry list" where
  "ledgerEntry_findMany U db accountId =
     (case client_uuid U accountId of
        None \<Rightarrow> Inl StorageError
      | Some u \<Rightarrow> Inr (filter (\<lambda>e. e_accountId e = u) (ledgerEntries db)))"

text \<open>
  The \<^verbatim>\<open>for (const entry of entries)\<close> loop of \<^verbatim>\<open>getBalance\<close>, with the running
  \<^verbatim>\<open>balance\<close> as accumulator. \<^verbatim>\<open>new Decimal(entry.amount)\<close> is the stored amount itself. An
  entry whose type is neither \<^verbatim>\<open>'credit'\<close> nor \<^verbatim>\<open>'debit'\<close> leaves the total as it is. The
  third parameter of \<^verbatim>\<open>getBalance\<close>, \<^verbatim>\<open>currency\<close>, is never read by its body and is left
  out.
\<close>

fun balance_loop :: "rat \<Rightarrow> ledgerEntry list \<Rightarrow> rat" where
  "balance_loop balance [] = balance"
| "balance_loop balance (entry # entries) =
     balance_loop
       (if e_entryType entry = ''credit'' then plus_decimal balance (e_amount entry)
        else if e_entryType entry = ''debit'' then minus_decimal balance (e_amount entry)
        else balance)
       entries"

definition getBalance :: "uuid_readers \<Rightarrow> database \<Rightarrow> string \<Rightarrow> error + rat" where
  "getBalance U tx accountId =
     (case ledgerEntry_findMany U tx accountId of
        Inl e \<Rightarrow> Inl e
      | Inr entries \<Rightarrow> Inr (balance_loop 0 entries))"

section \<open>JavaScript numbers and numeric columns\<close>

text \<open>
  A JavaScript number is an IEEE 754 binary64 value. \<^verbatim>\<open>Decimal.toNumber()\<close> yields the
  binary64 value nearest to the decimal, ties to the even significand: the magnitude is
  rounded to a multiple of \<open>2^(e - 52)\<close>, where \<open>e\<close> is its binary exponent, not below
  \<open>-1022\<close> (the subnormal range), and a result of \<open>2^1024\<close> or more is an infinity.
\<close>

datatype number = NumNaN | NumInfinity | NumNegInfinity | Num rat

fun bit_length :: "nat \<Rightarrow> nat" where
  "bit_length n = (if n = 0 then 0 else Suc (bit_length (n div 2)))"

declare bit_length.simps [simp del]

definition pow2 :: "int \<Rightarrow> rat" where
  "pow2 e = (if 0 \<le> e then 2 ^ nat e else 1 / 2 ^ nat (- e))"

text \<open>The binary exponent \<open>\<lfloor>log\<^sub>2 a\<rfloor>\<close> of a positive rational.\<close>

definition floor_log2 :: "rat \<Rightarrow> int" where
  "floor_log2 a =
     (if 1 \<le> a then int (bit_length (nat \<lfloor>a\<rfloor>)) - 1
      else - int (bit_length (nat (\<lceil>1 / a\<rceil> - 1))))"

definition round_half_even :: "rat \<Rightarrow> int" where
  "round_half_even x =
     (if x - of_int \<lfloor>x\<rfloor> < 1 / 2 then \<lfloor>x\<rfloor>
      else if 1 / 2 < x - of_int \<lfloor>x\<rfloor> then \<lfloor>x\<rfloor> + 1
      else if even \<lfloor>x\<rfloor> then \<lfloor>x\<rfloor> else \<lfloor>x\<rfloor> + 1)"

definition nearest_multiple :: "rat \<Rightarrow> rat \<Rightarrow> rat" where
  "nearest_multiple q a = of_int (round_half_even (a / q)) * q"

definition binary64_magnitude :: "rat \<Rightarrow> rat" where
  "binary64_magnitude a = nearest_multiple (pow2 (max (floor_log2 a) (- 1022) - 52)) a"

definition binary64 :: "rat \<Rightarrow> number" where
  "binary64 x =
     (if x = 0 then Num 0
      else if pow2 1024 \<le> binary64_magnitude \<bar>x\<bar>
           then (if x < 0 then NumNegInfinity else NumInfinity)
      else Num (if x < 0 then - binary64_magnitude \<bar>x\<bar> else binary64_magnitude \<bar>x\<bar>))"

fun toNumber :: "decimal \<Rightarrow> number" where
  "toNumber NaN = NumNaN"
| "toNumber Infinity = NumInfinity"
| "toNumber NegInfinity = NumNegInfinity"
| "toNumber (Dec r) = binary64 r"

text \<open>
  The client sends a number as its decimal text, which is the text of
  \<^verbatim>\<open>Number.prototype.toString\<close>: the decimal with the fewest significant digits that still
  denotes the number, the one nearest to it if several have that many digits (the even
  one on a tie). With \<open>k\<close> digits a decimal is a multiple of \<open>q = 10^(n - k)\<close>, where
  \<open>10^(n - 1) \<le> v < 10^n\<close>; the two multiples next to \<open>v\<close> are tried, the nearer one first.
  Seventeen digits always suffice.
\<close>

definition denotes :: "rat \<Rightarrow> rat \<Rightarrow> rat \<Rightarrow> rat option" where
  "denotes v first second =
     (if binary64 first = Num v then Some first
      else if binary64 second = Num v then Some second
      else None)"

definition try_multiples :: "rat \<Rightarrow> int \<Rightarrow> rat \<Rightarrow> rat option" where
  "try_multiples q s v =
     (if v - of_int s * q < of_int (s + 1) * q - v then denotes v (of_int s * q) (of_int (s + 1) * q)
      else if of_int (s + 1) * q - v < v - of_int s * q
      then denotes v (of_int (s + 1) * q) (of_int s * q)
      else if even s then denotes v (of_int s * q) (of_int (s + 1) * q)
      else denotes v (of_int (s + 1) * q) (of_int s * q))"

definition try_quantum :: "rat \<Rightarrow> rat \<Rightarrow> rat option" where
  "try_quantum q v = try_multiples q \<lfloor>v / q\<rfloor> v"

function shortest_from :: "nat \<Rightarrow> int \<Rightarrow> rat \<Rightarrow> rat" where
  "shortest_from k n v =
     (if 17 < k then v
      else case try_quantum (pow10 (n - int k)) v of
             Some d \<Rightarrow> d
           | None \<Rightarrow> shortest_from (Suc k) n v)"
  by pat_completeness auto
termination
  by (relation "measure (\<lambda>(k, n, v). 18 - k)") auto

declare shortest_from.simps [simp del]

definition shortest_decimal :: "rat \<Rightarrow> rat" where
  "shortest_decimal v =
     (if v = 0 then 0
      else if v < 0 then - shortest_from 1 (floor_log10 (- v) + 1) (- v)
      else shortest_from 1 (floor_log10 v + 1) v)"

text \<open>
  Writing a JavaScript number into a \<^verbatim>\<open>DECIMAL(20,8)\<close> column: the decimal text of the number
  is rounded to eight fractional digits, half away from zero, and must stay below
  \<open>10^12\<close> in magnitude; \<^verbatim>\<open>NaN\<close> and the infinities are refused.
\<close>

definition round_scale8 :: "rat \<Rightarrow> rat" where
  "round_scale8 r =
     (if r < 0 then - (of_int \<lfloor>- r * 100000000 + 1 / 2\<rfloor> / 100000000)
      else of_int \<lfloor>r * 100000000 + 1 / 2\<rfloor> / 100000000)"

definition numeric_20_8 :: "rat \<Rightarrow> error + rat" where
  "numeric_20_8 r =
     (if \<bar>round_scale8 r\<bar> < 1000000000000 then Inr (round_scale8 r) else Inl StorageError)"

fun decimal_20_8 :: "number \<Rightarrow> error + rat" where
  "decimal_20_8 (Num r) = numeric_20_8 (shortest_decimal r)"
| "decimal_20_8 n = Inl StorageError"

text \<open>
  The argument \<^verbatim>\<open>new Decimal(amount)\<close> receives: a numeral (a JSON number or a numeric
  string, with the decimal it denotes) or anything else, on which the constructor throws.
\<close>

datatype js_amount = NotANumeral | Numeral decimal

fun new_Decimal :: "js_amount \<Rightarrow> error + decimal" where
  "new_Decimal NotANumeral = Inl DecimalError"
| "new_Decimal (Numeral d) = Inr d"

section \<open>Storage operations\<close>

text \<open>
  The identifiers and the timestamp the storage layer generates for the rows of one
  transfer (\<^verbatim>\<open>uuid\<close> and \<^verbatim>\<open>CURRENT_TIMESTAMP\<close> column defaults).
\<close>

record generated =
  g_txId :: uuid
  g_debitId :: uuid
  g_creditId :: uuid
  g_now :: nat

text \<open>
  \<^verbatim>\<open>SELECT 1 FROM "Account" WHERE "id" = $1::uuid FOR UPDATE\<close>: the statement throws on a
  parameter that is refused as a uuid; otherwise it is executed and logged.
\<close>

definition queryRaw_lock :: "uuid_readers \<Rightarrow> database \<Rightarrow> string \<Rightarrow> error + database" where
  "queryRaw_lock U tx i =
     (case cast_uuid U i of
        None \<Rightarrow> Inl StorageError
      | Some u \<Rightarrow> Inr (tx\<lparr>lockLog := lockLog tx @ [i]\<rparr>))"

text \<open>\<^verbatim>\<open>tx.account.findUnique({ where: { id } })\<close>.\<close>

definition account_findUnique ::
  "uuid_readers \<Rightarrow> database \<Rightarrow> string \<Rightarrow> error + account option" where
  "account_findUnique U tx i =
     (case client_uuid U i of
        None \<Rightarrow> Inl StorageError
      | Some u \<Rightarrow> Inr (find (\<lambda>a. a_id a = u) (accounts tx)))"

text \<open>
  \<^verbatim>\<open>tx.transaction.create\<close> and \<^verbatim>\<open>tx.ledgerEntry.create\<close>: the account identifiers are read
  by the client, the amount is given as a JavaScript number and written into the
  \<^verbatim>\<open>DECIMAL(20,8)\<close> column, and the primary key must be new. The created row is returned.
  The \<^verbatim>\<open>transactionId\<close> of an entry is the \<^verbatim>\<open>id\<close> the storage returned for the record.
\<close>

definition transaction_create ::
  "uuid_readers \<Rightarrow> database \<Rightarrow> uuid \<Rightarrow> nat \<Rightarrow> string \<Rightarrow> string \<Rightarrow> string \<Rightarrow> number \<Rightarrow> string
     \<Rightarrow> string \<Rightarrow> error + transaction \<times> database" where
  "transaction_create U tx i now ty src dst amt cur st =
     (case client_uuid U src of
        None \<Rightarrow> Inl StorageError
      | Some s \<Rightarrow>
     (case client_uuid U dst of
        None \<Rightarrow> Inl StorageError
      | Some d \<Rightarrow>
     (case decimal_20_8 amt of
        Inl e \<Rightarrow> Inl e
      | Inr a \<Rightarrow>
          if i \<in> set (map t_id (transactions tx)) then Inl StorageError
          else let row = \<lparr>t_id = i, t_type = ty, t_sourceAccountId = Some s,
                            t_destinationAccountId = Some d, t_amount = a, t_currency = cur,
                            t_status = st, t_createdAt = now\<rparr>
               in Inr (row, tx\<lparr>transactions := transactions tx @ [row]\<rparr>))))"

definition ledgerEntry_create ::
  "uuid_readers \<Rightarrow> database \<Rightarrow> uuid \<Rightarrow> nat \<Rightarrow> string \<Rightarrow> uuid \<Rightarrow> string \<Rightarrow> number \<Rightarrow> string
     \<Rightarrow> error + ledgerEntry \<times> database" where
  "ledgerEntry_create U tx i now acct txn ty amt cur =
     (case client_uuid U acct of
        None \<Rightarrow> Inl StorageError
      | Some a \<Rightarrow>
     (case decimal_20_8 amt of
        Inl e \<Rightarrow> Inl e
      | Inr v \<Rightarrow>
          if i \<in> set (map e_id (ledgerEntries tx)) then Inl StorageError
          else let row = \<lparr>e_id = i, e_accountId = a, e_transactionId = txn,
                            e_entryType = ty, e_amount = v, e_currency = cur,
                            e_createdAt = now\<rparr>
               in Inr (row, tx\<lparr>ledgerEntries := ledgerEntries tx @ [row]\<rparr>)))"

text \<open>\<^verbatim>\<open>tx.account.update({ where: { id }, data: { balance } })\<close>.\<close>

definition account_update ::
  "uuid_readers \<Rightarrow> database \<Rightarrow> string \<Rightarrow> number \<Rightarrow> error + database" where
  "account_update U tx i bal =
     (case client_uuid U i of
        None \<Rightarrow> Inl StorageError
      | Some u \<Rightarrow>
     (case decimal_20_8 bal of
        Inl e \<Rightarrow> Inl e
      | Inr b \<Rightarrow>
          if u \<in> set (map a_id (accounts tx))
          then Inr (tx\<lparr>accounts :=
                        map (\<lambda>a. if a_id a = u then a\<lparr>a_balance := b\<rparr> else a) (accounts tx)\<rparr>)
          else Inl StorageError))"

text \<open>
  \<^verbatim>\<open>prisma.$transaction(callback)\<close>: the callback runs on the storage; when it throws,
  the tables are as they were before it started. Lock statements that were executed
  stay in the log.
\<close>

definition prisma_transaction ::
  "(database \<Rightarrow> (error + 'a) \<times> database) \<Rightarrow> database \<Rightarrow> (error + 'a) \<times> database" where
  "prisma_transaction callback db =
     (case callback db of
        (Inl e, tx) \<Rightarrow> (Inl e, db\<lparr>lockLog := lockLog tx\<rparr>)
      | (Inr r, tx) \<Rightarrow> (Inr r, tx))"

section \<open>Transfer orchestrator\<close>

text \<open>
  \<^verbatim>\<open>[sourceAccountId, destinationAccountId].sort()\<close>: the default sort of JavaScript
  orders strings by their code units; the two identifier strings are put in the
  lexicographic order of their characters.
\<close>

definition lockedIds :: "string \<Rightarrow> string \<Rightarrow> string list" where
  "lockedIds sourceAccountId destinationAccountId =
     sort [sourceAccountId, destinationAccountId]"

text \<open>
  The statements of \<^verbatim>\<open>transfer\<close> from \<^verbatim>\<open>tx.transaction.create\<close> to \<^verbatim>\<open>return transaction\<close>.
  The second component is the storage as the callback leaves it, also when it throws.
\<close>

definition write_phase ::
  "uuid_readers \<Rightarrow> generated \<Rightarrow> string \<Rightarrow> string \<Rightarrow> decimal \<Rightarrow> string \<Rightarrow> database
     \<Rightarrow> (error + transaction) \<times> database" where
  "write_phase U g sourceAccountId destinationAccountId amount currency tx =
     (case transaction_create U tx (g_txId g) (g_now g) ''transfer'' sourceAccountId
             destinationAccountId (toNumber amount) currency ''completed'' of
        Inl e \<Rightarrow> (Inl e, tx)
      | Inr (transaction, tx1) \<Rightarrow>
     (case ledgerEntry_create U tx1 (g_debitId g) (g_now g) sourceAccountId (t_id transaction)
             ''debit'' (toNumber amount) currency of
        Inl e \<Rightarrow> (Inl e, tx1)
      | Inr (debit, tx2) \<Rightarrow>
     (case ledgerEntry_create U tx2 (g_creditId g) (g_now g) destinationAccountId
             (t_id transaction) ''credit'' (toNumber amount) currency of
        Inl e \<Rightarrow> (Inl e, tx2)
      | Inr (credit, tx3) \<Rightarrow>
     (case getBalance U tx3 sourceAccountId of
        Inl e \<Rightarrow> (Inl e, tx3)
      | Inr newSourceBalance \<Rightarrow>
     (case getBalance U tx3 destinationAccountId of
        Inl e \<Rightarrow> (Inl e, tx3)
      | Inr newDestBalance \<Rightarrow>
     (case account_update U tx3 sourceAccountId (toNumber (Dec newSourceBalance)) of
        Inl e \<Rightarrow> (Inl e, tx3)
      | Inr tx4 \<Rightarrow>
     (case account_update U tx4 destinationAccountId (toNumber (Dec newDestBalance)) of
        Inl e \<Rightarrow> (Inl e, tx4)
      | Inr tx5 \<Rightarrow> (Inr transaction, tx5))))))))"

text \<open>The callback of \<^verbatim>\<open>transfer\<close>: lock, fetch, compute, decide, write.\<close>

definition transfer_tx ::
  "uuid_readers \<Rightarrow> generated \<Rightarrow> string \<Rightarrow> string \<Rightarrow> decimal \<Rightarrow> string \<Rightarrow> database
     \<Rightarrow> (error + transaction) \<times> database" where
  "transfer_tx U g sourceAccountId destinationAccountId amount currency tx0 =
     (case queryRaw_lock U tx0 (lockedIds sourceAccountId destinationAccountId ! 0) of
        Inl e \<Rightarrow> (Inl e, tx0)
      | Inr tx1 \<Rightarrow>
     (case queryRaw_lock U tx1 (lockedIds sourceAccountId destinationAccountId ! 1) of
        Inl e \<Rightarrow> (Inl e, tx1)
      | Inr tx2 \<Rightarrow>
     (case account_findUnique U tx2 sourceAccountId of
        Inl e \<Rightarrow> (Inl e, tx2)
      | Inr source \<Rightarrow>
     (case account_findUnique U tx2 destinationAccountId of
        Inl e \<Rightarrow> (Inl e, tx2)
      | Inr dest \<Rightarrow>
          if source = None \<or> dest = None
          then (Inl (UnprocessableEntity ''Account does not exist''), tx2)
          else (case getBalance U tx2 sourceAccountId of
                  Inl e \<Rightarrow> (Inl e, tx2)
                | Inr sourceBalance \<Rightarrow>
                    if lessThan_decimal (Dec sourceBalance) amount
                    then (Inl (UnprocessableEntity ''insufficient funds''), tx2)
                    else write_phase U g sourceAccountId destinationAccountId amount
                           currency tx2)))))"

definition transfer ::
  "uuid_readers \<Rightarrow> generated \<Rightarrow> database \<Rightarrow> string \<Rightarrow> string \<Rightarrow> js_amount \<Rightarrow> string
     \<Rightarrow> (error + transaction) \<times> database" where
  "transfer U g db sourceAccountId destinationAccountId amount currency =
     (case new_Decimal amount of
        Inl e \<Rightarrow> (Inl e, db)
      | Inr amountDec \<Rightarrow>
          prisma_transaction
            (transfer_tx U g sourceAccountId destinationAccountId amountDec currency) db)"

section \<open>The transfer route\<close>

text \<open>
  \<^verbatim>\<open>POST /transfers\<close> in \<^verbatim>\<open>routes/flows.js\<close>. A field of the request body is absent
  (\<open>None\<close>) or present; identifiers and the currency are strings. A reply is a status
  with a JSON body, or a status with \<^verbatim>\<open>{ error: message }\<close>. An error without a status of
  its own reaches the handler of \<^verbatim>\<open>app.js\<close>, which replies 500 \<^verbatim>\<open>Internal error\<close>.
\<close>

record request_body =
  body_sourceAccountId :: "string option"
  body_destinationAccountId :: "string option"
  body_amount :: "js_amount option"
  body_currency :: "string option"

datatype 'a response = Json nat 'a | ErrorJson nat string

text \<open>\<^verbatim>\<open>String.prototype.toUpperCase\<close> on the letters of a currency code.\<close>

definition toUpperCase :: "string \<Rightarrow> string" where
  "toUpperCase s =
     map (\<lambda>c. case map_of (zip ''abcdefghijklmnopqrstuvwxyz''
                                 ''ABCDEFGHIJKLMNOPQRSTUVWXYZ'') c of
                 None \<Rightarrow> c | Some u \<Rightarrow> u) s"

definition post_transfers ::
  "uuid_readers \<Rightarrow> generated \<Rightarrow> database \<Rightarrow> request_body
     \<Rightarrow> transaction response \<times> database" where
  "post_transfers U g db body =
     (case (body_sourceAccountId body, body_destinationAccountId body,
            body_amount body, body_currency body) of
        (Some sourceAccountId, Some destinationAccountId, Some amount, Some currency) \<Rightarrow>
          if sourceAccountId = [] \<or> destinationAccountId = [] \<or> currency = []
          then (ErrorJson 400
                  ''sourceAccountId, destinationAccountId, amount, currency required'', db)
          else if sourceAccountId = destinationAccountId
          then (ErrorJson 400
                  ''sourceAccountId and destinationAccountId must be different'', db)
          else (case new_Decimal amount of
                  Inl e \<Rightarrow> (ErrorJson 500 ''Internal error'', db)
                | Inr amountDec \<Rightarrow>
                    if isNaN amountDec \<or> lessThanOrEqualTo amountDec (Dec 0)
                    then (ErrorJson 400 ''amount must be a positive number'', db)
                    else if length currency \<noteq> 3
                    then (ErrorJson 400 ''currency must be a 3-letter code'', db)
                    else (case transfer U g db sourceAccountId destinationAccountId
                                 (Numeral amountDec) (toUpperCase currency) of
                            (Inl (UnprocessableEntity m), db') \<Rightarrow> (ErrorJson 422 m, db')
                          | (Inl e, db') \<Rightarrow> (ErrorJson 500 ''Internal error'', db')
                          | (Inr result, db') \<Rightarrow> (Json 201 result, db')))
      | _ \<Rightarrow>
          (ErrorJson 400
             ''sourceAccountId, destinationAccountId, amount, currency required'', db))"

section \<open>The ledger route\<close>

text \<open>
  The query parameters \<^verbatim>\<open>limit\<close> and \<^verbatim>\<open>offset\<close> are JavaScript strings, here the lists of
  their UTF-16 code units. \<^verbatim>\<open>parseInt(s, 10)\<close> skips leading white space (the characters
  of \<^verbatim>\<open>StrWhiteSpaceChar\<close>), reads a sign, then the longest run of decimal digits, and
  returns the number nearest to the integer read, \<^verbatim>\<open>NaN\<close> if there is no digit.
\<close>

definition code_units :: "string \<Rightarrow> nat list" where
  "code_units s = map of_char s"

definition is_space :: "nat \<Rightarrow> bool" where
  "is_space c =
     (c \<in> set [0x09, 0x0A, 0x0B, 0x0C, 0x0D, 0x20, 0xA0, 0x1680, 0x2028, 0x2029, 0x202F,
               0x205F, 0x3000, 0xFEFF]
      \<or> (0x2000 \<le> c \<and> c \<le> 0x200A))"

definition digit_value :: "nat \<Rightarrow> nat option" where
  "digit_value c = (if 48 \<le> c \<and> c \<le> 57 then Some (c - 48) else None)"

fun digits_prefix :: "nat list \<Rightarrow> nat list" where
  "digits_prefix [] = []"
| "digits_prefix (c # cs) =
     (case digit_value c of None \<Rightarrow> [] | Some d \<Rightarrow> d # digits_prefix cs)"

definition negate :: "number \<Rightarrow> number" where
  "negate x =
     (case x of NumNaN \<Rightarrow> NumNaN | NumInfinity \<Rightarrow> NumNegInfinity
      | NumNegInfinity \<Rightarrow> NumInfinity | Num r \<Rightarrow> Num (- r))"

definition parse_digits :: "nat list \<Rightarrow> number" where
  "parse_digits s =
     (if digits_prefix s = [] then NumNaN
      else binary64 (of_nat (foldl (\<lambda>n d. 10 * n + d) 0 (digits_prefix s))))"

definition parseInt :: "nat list \<Rightarrow> number" where
  "parseInt s =
     (case dropWhile is_space s of
        [] \<Rightarrow> NumNaN
      | c # cs \<Rightarrow>
          if c = 45 then negate (parse_digits cs)
          else if c = 43 then parse_digits cs
          else parse_digits (c # cs))"

text \<open>\<^verbatim>\<open>x || d\<close> on numbers: \<^verbatim>\<open>NaN\<close> and 0 are falsy.\<close>

definition or_default :: "number \<Rightarrow> number \<Rightarrow> number" where
  "or_default x d = (if x = NumNaN \<or> x = Num 0 then d else x)"

text \<open>\<^verbatim>\<open>Math.min(x, 1000)\<close> for a number that is not \<^verbatim>\<open>NaN\<close>.\<close>

definition min_1000 :: "number \<Rightarrow> number" where
  "min_1000 x =
     (case x of NumNaN \<Rightarrow> NumNaN | NumInfinity \<Rightarrow> Num 1000
      | NumNegInfinity \<Rightarrow> NumNegInfinity | Num r \<Rightarrow> Num (min r 1000))"

text \<open>
  The client takes \<^verbatim>\<open>take\<close> and \<^verbatim>\<open>skip\<close> as 64-bit integers: a number whose decimal text
  is not an integer from \<open>-2^63\<close> to \<open>2^63 - 1\<close> is refused.
\<close>

definition int64_of_text :: "rat \<Rightarrow> int option" where
  "int64_of_text d =
     (if of_int \<lfloor>d\<rfloor> = d \<and> - 9223372036854775808 \<le> d \<and> d \<le> 9223372036854775807
      then Some \<lfloor>d\<rfloor> else None)"

fun client_int64 :: "number \<Rightarrow> int option" where
  "client_int64 (Num r) = int64_of_text (shortest_decimal r)"
| "client_int64 x = None"

text \<open>\<^verbatim>\<open>prisma.ledgerEntry.count({ where: { accountId: id } })\<close>.\<close>

definition ledgerEntry_count :: "uuid_readers \<Rightarrow> database \<Rightarrow> string \<Rightarrow> error + nat" where
  "ledgerEntry_count U db i =
     (case ledgerEntry_findMany U db i of
        Inl e \<Rightarrow> Inl e
      | Inr entries \<Rightarrow> Inr (length entries))"

text \<open>
  \<^verbatim>\<open>prisma.ledgerEntry.findMany\<close> with \<^verbatim>\<open>orderBy: { createdAt: 'desc' }\<close>, \<^verbatim>\<open>take\<close> and
  \<^verbatim>\<open>skip\<close>. The client refuses a negative \<^verbatim>\<open>skip\<close>; a negative \<^verbatim>\<open>take\<close> takes from the
  end of the ordered rows.
\<close>

definition ledgerEntry_findMany_page ::
  "uuid_readers \<Rightarrow> database \<Rightarrow> string \<Rightarrow> number \<Rightarrow> number \<Rightarrow> error + ledgerEntry list" where
  "ledgerEntry_findMany_page U db i take_n skip_n =
     (case ledgerEntry_findMany U db i of
        Inl e \<Rightarrow> Inl e
      | Inr rows \<Rightarrow>
     (case client_int64 take_n of
        None \<Rightarrow> Inl StorageError
      | Some t \<Rightarrow>
     (case client_int64 skip_n of
        None \<Rightarrow> Inl StorageError
      | Some s \<Rightarrow>
          if s < 0 then Inl StorageError
          else if 0 \<le> t
          then Inr (take (nat t) (drop (nat s) (rev (sort_key e_createdAt rows))))
          else Inr (rev (take (nat (- t)) (drop (nat s) (sort_key e_createdAt rows)))))))"

record ledger_page =
  p_entries :: "ledgerEntry list"
  p_total :: nat
  p_limit :: number
  p_offset :: number
  p_hasMore :: bool

text \<open>
  \<^verbatim>\<open>offsetNum + entries.length < totalCount\<close>: the sum is a JavaScript number, and a
  comparison with \<^verbatim>\<open>NaN\<close> is false.
\<close>

definition has_more :: "number \<Rightarrow> nat \<Rightarrow> nat \<Rightarrow> bool" where
  "has_more offsetNum len totalCount =
     (case offsetNum of
        Num r \<Rightarrow>
          (case binary64 (r + of_nat len) of
             Num s \<Rightarrow> s < of_nat totalCount
           | NumNegInfinity \<Rightarrow> True
           | _ \<Rightarrow> False)
      | NumNegInfinity \<Rightarrow> True
      | _ \<Rightarrow> False)"

text \<open>
  \<^verbatim>\<open>GET /accounts/:id/ledger\<close> in \<^verbatim>\<open>routes/accounts.js\<close>, with the query parameters
  \<^verbatim>\<open>limit\<close> and \<^verbatim>\<open>offset\<close> absent or given as strings.
\<close>

definition get_ledger ::
  "uuid_readers \<Rightarrow> database \<Rightarrow> string \<Rightarrow> nat list option \<Rightarrow> nat list option
     \<Rightarrow> ledger_page response" where
  "get_ledger U db i limit offset =
     (let limitNum =
            min_1000 (or_default
              (parseInt (case limit of None \<Rightarrow> code_units ''100'' | Some l \<Rightarrow> l)) (Num 100));
          offsetNum =
            or_default (parseInt (case offset of None \<Rightarrow> code_units ''0'' | Some f \<Rightarrow> f)) (Num 0)
      in case ledgerEntry_count U db i of
           Inl e \<Rightarrow> ErrorJson 500 ''Internal error''
         | Inr totalCount \<Rightarrow>
        (case ledgerEntry_findMany_page U db i limitNum offsetNum of
           Inl e \<Rightarrow> ErrorJson 500 ''Internal error''
         | Inr entries \<Rightarrow>
             Json 200 \<lparr>p_entries = entries, p_total = totalCount, p_limit = limitNum,
                       p_offset = offsetNum,
                       p_hasMore = has_more offsetNum (length entries) totalCount\<rparr>))"

section \<open>Storage constraints and example ledgers\<close>

text \<open>
  The foreign keys of \<^verbatim>\<open>LedgerEntry\<close> declared in the migration: every entry refers to
  a stored transaction and to a stored account.
\<close>

definition fk_ledgerEntry_transaction :: "database \<Rightarrow> bool" where
  "fk_ledgerEntry_transaction db =
     (set (map e_transactionId (ledgerEntries db)) \<subseteq> set (map t_id (transactions db)))"

definition fk_ledgerEntry_account :: "database \<Rightarrow> bool" where
  "fk_ledgerEntry_account db =
     (set (map e_accountId (ledgerEntries db)) \<subseteq> set (map a_id (accounts db)))"

text \<open>
  The amounts a \<^verbatim>\<open>DECIMAL(20,8)\<close> column holds have at most eight fractional digits. The
  balance calculator is exact on a list of entries when, without any rounding, the running
  total after each entry stays below \<open>10^12\<close> in magnitude: such totals have at most 20
  significant digits.
\<close>

definition scale8 :: "rat \<Rightarrow> bool" where
  "scale8 x = (of_int \<lfloor>x * 100000000\<rfloor> = x * 100000000)"

definition exact_step :: "rat \<Rightarrow> ledgerEntry \<Rightarrow> rat" where
  "exact_step b e =
     (if e_entryType e = ''credit'' then b + e_amount e
      else if e_entryType e = ''debit'' then b - e_amount e
      else b)"

fun running_totals_fit :: "rat \<Rightarrow> ledgerEntry list \<Rightarrow> bool" where
  "running_totals_fit b [] = True"
| "running_totals_fit b (e # es) =
     (if scale8 (e_amount e) then
        (if \<bar>exact_step b e\<bar> < 1000000000000 then running_totals_fit (exact_step b e) es
         else False)
      else False)"

text \<open>
  The ledger of the integration tests: accounts A and B in USD, A funded by an initial
  deposit with one credit entry (of 100 in the tests and in \<open>scenario_db\<close>).
  \<open>acct_A_capitals\<close> is the identifier of A spelled with capital digits. The readers of
  the examples are given on the four spellings that occur; no example uses another.
\<close>

definition acct_A :: uuid where
  "acct_A = ''a0000000-0000-4000-8000-00000000000a''"

definition acct_A_capitals :: string where
  "acct_A_capitals = ''A0000000-0000-4000-8000-00000000000A''"

definition acct_B :: uuid where
  "acct_B = ''b0000000-0000-4000-8000-00000000000b''"

definition acct_unknown :: uuid where
  "acct_unknown = ''c0000000-0000-4000-8000-00000000000c''"

definition example_reading :: "string \<Rightarrow> uuid option" where
  "example_reading s =
     (if s = acct_A then Some acct_A
      else if s = acct_A_capitals then Some acct_A
      else if s = acct_B then Some acct_B
      else if s = acct_unknown then Some acct_unknown
      else None)"

definition example_readers :: uuid_readers where
  "example_readers = \<lparr>cast_uuid = example_reading, client_uuid = example_reading\<rparr>"

definition funded_db :: "rat \<Rightarrow> database" where
  "funded_db deposit =
     \<lparr>accounts =
        [\<lparr>a_id = acct_A, a_userId = ''userA'', a_accountType = ''checking'',
          a_currency = ''USD'', a_status = ''active'', a_balance = deposit\<rparr>,
         \<lparr>a_id = acct_B, a_userId = ''userB'', a_accountType = ''checking'',
          a_currency = ''USD'', a_status = ''active'', a_balance = 0\<rparr>],
      transactions =
        [\<lparr>t_id = ''00000000-0000-4000-8000-000000000001'', t_type = ''initial_deposit'',
          t_sourceAccountId = None, t_destinationAccountId = Some acct_A, t_amount = deposit,
          t_currency = ''USD'', t_status = ''completed'', t_createdAt = 1\<rparr>],
      ledgerEntries =
        [\<lparr>e_id = ''00000000-0000-4000-8000-000000000002'', e_accountId = acct_A,
          e_transactionId = ''00000000-0000-4000-8000-000000000001'', e_entryType = ''credit'',
          e_amount = deposit, e_currency = ''USD'', e_createdAt = 1\<rparr>],
      lockLog = []\<rparr>"

definition scenario_db :: database where
  "scenario_db = funded_db 100"

definition scenario_generated :: generated where
  "scenario_generated =
     \<lparr>g_txId = ''00000000-0000-4000-8000-000000000003'',
      g_debitId = ''00000000-0000-4000-8000-000000000004'',
      g_creditId = ''00000000-0000-4000-8000-000000000005'',
      g_now = 2\<rparr>"

text \<open>
  The transaction record and the ledger after a committed transfer from A to B of a
  request that is stored as \<open>stored\<close>, on a ledger where A was funded with \<open>deposit\<close>.
\<close>

definition committed_result :: "rat \<Rightarrow> string \<Rightarrow> transaction" where
  "committed_result stored cur =
     \<lparr>t_id = ''00000000-0000-4000-8000-000000000003'', t_type = ''transfer'',
      t_sourceAccountId = Some acct_A, t_destinationAccountId = Some acct_B,
      t_amount = stored, t_currency = cur, t_status = ''completed'', t_createdAt = 2\<rparr>"

definition committed_db :: "rat \<Rightarrow> rat \<Rightarrow> string \<Rightarrow> database" where
  "committed_db deposit stored cur =
     \<lparr>accounts =
        [\<lparr>a_id = acct_A, a_userId = ''userA'', a_accountType = ''checking'',
          a_currency = ''USD'', a_status = ''active'', a_balance = deposit - stored\<rparr>,
         \<lparr>a_id = acct_B, a_userId = ''userB'', a_accountType = ''checking'',
          a_currency = ''USD'', a_status = ''active'', a_balance = stored\<rparr>],
      transactions = transactions (funded_db deposit) @ [committed_result stored cur],
      ledgerEntries = ledgerEntries (funded_db deposit) @
        [\<lparr>e_id = ''00000000-0000-4000-8000-000000000004'', e_accountId = acct_A,
          e_transactionId = ''00000000-0000-4000-8000-000000000003'', e_entryType = ''debit'',
          e_amount = stored, e_currency = cur, e_createdAt = 2\<rparr>,
         \<lparr>e_id = ''00000000-0000-4000-8000-000000000005'', e_accountId = acct_B,
          e_transactionId = ''00000000-0000-4000-8000-000000000003'', e_entryType = ''credit'',
          e_amount = stored, e_currency = cur, e_createdAt = 2\<rparr>],
      lockLog = [acct_A, acct_B]\<rparr>"

definition transfer_request :: "string \<Rightarrow> string \<Rightarrow> rat \<Rightarrow> string \<Rightarrow> request_body" where
  "transfer_request src dst amt cur =
     \<lparr>body_sourceAccountId = Some src, body_destinationAccountId = Some dst,
      body_amount = Some (Numeral (Dec amt)), body_currency = Some cur\<rparr>"

text \<open>
  The record and the ledger after the transfer of 40 that names A as its source in small
  digits and as its destination in capital digits, on the ledger where A holds 100.
\<close>

definition respelled_result :: transaction where
  "respelled_result =
     \<lparr>t_id = ''00000000-0000-4000-8000-000000000003'', t_type = ''transfer'',
      t_sourceAccountId = Some acct_A, t_destinationAccountId = Some acct_A,
      t_amount = 40, t_currency = ''USD'', t_status = ''completed'', t_createdAt = 2\<rparr>"

definition respelled_db :: database where
  "respelled_db =
     \<lparr>accounts = accounts scenario_db,
      transactions = transactions scenario_db @ [respelled_result],
      ledgerEntries = ledgerEntries scenario_db @
        [\<lparr>e_id = ''00000000-0000-4000-8000-000000000004'', e_accountId = acct_A,
          e_transactionId = ''00000000-0000-4000-8000-000000000003'', e_entryType = ''debit'',
          e_amount = 40, e_currency = ''USD'', e_createdAt = 2\<rparr>,
         \<lparr>e_id = ''00000000-0000-4000-8000-000000000005'', e_accountId = acct_A,
          e_transactionId = ''00000000-0000-4000-8000-000000000003'', e_entryType = ''credit'',
          e_amount = 40, e_currency = ''USD'', e_createdAt = 2\<rparr>],
      lockLog = [acct_A_capitals, acct_A]\<rparr>"

text \<open>A ledger with two credits of \<open>600000000000.00000001\<close> on account A.\<close>

definition two_credits_db :: database where
  "two_credits_db =
     \<lparr>accounts = accounts scenario_db,
      transactions =
        [\<lparr>t_id = ''00000000-0000-4000-8000-000000000001'', t_type = ''initial_deposit'',
          t_sourceAccountId = None, t_destinationAccountId = Some acct_A,
          t_amount = 60000000000000000001 / 100000000, t_currency = ''USD'',
          t_status = ''completed'', t_createdAt = 1\<rparr>,
         \<lparr>t_id = ''00000000-0000-4000-8000-000000000007'', t_type = ''deposit'',
          t_sourceAccountId = None, t_destinationAccountId = Some acct_A,
          t_amount = 60000000000000000001 / 100000000, t_currency = ''USD'',
          t_status = ''completed'', t_createdAt = 1\<rparr>],
      ledgerEntries =
        [\<lparr>e_id = ''00000000-0000-4000-8000-000000000002'', e_accountId = acct_A,
          e_transactionId = ''00000000-0000-4000-8000-000000000001'', e_entryType = ''credit'',
          e_amount = 60000000000000000001 / 100000000, e_currency = ''USD'',
          e_createdAt = 1\<rparr>,
         \<lparr>e_id = ''00000000-0000-4000-8000-000000000006'', e_accountId = acct_A,
          e_transactionId = ''00000000-0000-4000-8000-000000000007'', e_entryType = ''credit'',
          e_amount = 60000000000000000001 / 100000000, e_currency = ''USD'',
          e_createdAt = 1\<rparr>],
      lockLog = []\<rparr>"

section \<open>Evaluation of the numeric conversions\<close>

text \<open>
  Rounding to 20 significant digits is the identity on amounts of scale 8 below \<open>10^12\<close>;
  the binary64 value of a natural number below \<open>2^53\<close> is the number itself; the values
  of the conversions at the amounts of the examples.
\<close>

lemma floor_rat_numeral_div [simp]:
  "\<lfloor>numeral a / numeral b :: rat\<rfloor> = numeral a div numeral b"
  by (metis floor_divide_of_int_eq of_int_numeral)

lemma ceiling_rat_numeral_div [simp]:
  "\<lceil>numeral a / numeral b :: rat\<rceil> = - (- numeral a div numeral b)"
  unfolding ceiling_def
  by (metis floor_divide_of_int_eq of_int_numeral of_int_minus minus_divide_left)

lemma digits10_bound: "n < 10 ^ k \<Longrightarrow> digits10 n \<le> k"
proof (induction k arbitrary: n)
  case 0
  then show ?case by (simp add: digits10.simps)
next
  case (Suc k)
  show ?case
  proof (cases "n = 0")
    case True
    then show ?thesis by (simp add: digits10.simps)
  next
    case False
    from Suc.prems have "n div 10 < 10 ^ k"
      by (simp add: less_mult_imp_div_less mult.commute)
    then have "digits10 (n div 10) \<le> k" by (rule Suc.IH)
    with False show ?thesis by (subst digits10.simps) simp
  qed
qed

lemma floor_log10_bound:
  assumes "0 < a" and "a < 1000000000000"
  shows "floor_log10 a \<le> 11"
proof (cases "1 \<le> a")
  case True
  have "\<lfloor>a\<rfloor> < 1000000000000"
    using assms(2) by (simp add: floor_less_iff)
  moreover have "0 \<le> \<lfloor>a\<rfloor>" using True by simp
  ultimately have "nat \<lfloor>a\<rfloor> < nat 1000000000000"
    by (simp only: zless_nat_conj) simp
  then have "nat \<lfloor>a\<rfloor> < 10 ^ 12" by simp
  then have "digits10 (nat \<lfloor>a\<rfloor>) \<le> 12" by (rule digits10_bound)
  with True show ?thesis by (simp add: floor_log10_def)
next
  case False
  then show ?thesis by (simp add: floor_log10_def)
qed

lemma scale8_Ints: "scale8 x \<longleftrightarrow> x * 100000000 \<in> \<int>"
proof
  assume "scale8 x"
  then have "of_int \<lfloor>x * 100000000\<rfloor> = x * 100000000"
    unfolding scale8_def .
  then show "x * 100000000 \<in> \<int>"
    by (metis Ints_of_int)
next
  assume "x * 100000000 \<in> \<int>"
  then obtain m :: int where "x * 100000000 = of_int m"
    by (auto elim: Ints_cases)
  then show "scale8 x"
    by (simp add: scale8_def)
qed

lemma round_half_up_multiple:
  assumes "0 < q" and "a / q \<in> \<int>"
  shows "round_half_up q a = a"
proof -
  from assms(2) obtain k :: int where k: "a / q = of_int k"
    by (auto elim: Ints_cases)
  have f: "\<lfloor>(of_int k :: rat) + 1 / 2\<rfloor> = k"
    by (rule floor_unique) simp_all
  have a: "a = of_int k * q"
    using assms(1) k by (simp add: field_simps)
  show ?thesis
    unfolding round_half_up_def k f by (simp add: a)
qed

lemma pow10_pos: "0 < pow10 e"
  by (simp add: pow10_def)

lemma scale8_multiple_of_pow10:
  assumes "x * 100000000 \<in> \<int>" and "e \<le> 11"
  shows "x / pow10 (e - 19) \<in> \<int>"
proof -
  from assms(1) obtain m :: int where m: "x * 100000000 = of_int m"
    by (auto elim: Ints_cases)
  define k where "k = nat (19 - e)"
  have k8: "8 \<le> k" using assms(2) by (simp add: k_def)
  have p: "pow10 (e - 19) = 1 / 10 ^ k"
    using assms(2) by (simp add: pow10_def k_def)
  have x: "x = of_int m / 10 ^ 8"
    using m by (simp add: field_simps)
  have "(10::rat) ^ k = 10 ^ 8 * 10 ^ (k - 8)"
    using k8 by (metis le_add_diff_inverse power_add)
  then have "x / pow10 (e - 19) = of_int m * 10 ^ (k - 8)"
    unfolding p x by simp
  also have "\<dots> = of_int (m * 10 ^ (k - 8))" by simp
  finally show ?thesis by (metis Ints_of_int)
qed

lemma precision20_exact:
  assumes "scale8 x" and "\<bar>x\<bar> < 1000000000000"
  shows "precision20 x = x"
proof -
  have i: "x * 100000000 \<in> \<int>" using assms(1) by (simp add: scale8_Ints)
  show ?thesis
  proof (cases "x = 0")
    case True
    then show ?thesis by (simp add: precision20_def)
  next
    case False
    show ?thesis
    proof (cases "x < 0")
      case True
      have n: "(- x) * 100000000 \<in> \<int>" using i by (metis Ints_minus mult_minus_left)
      have b: "floor_log10 (- x) \<le> 11"
        using True assms(2) by (intro floor_log10_bound) auto
      have "round_half_up (pow10 (floor_log10 (- x) - 19)) (- x) = - x"
        by (rule round_half_up_multiple [OF pow10_pos scale8_multiple_of_pow10 [OF n b]])
      with True show ?thesis by (simp add: precision20_def)
    next
      case pos: False
      have b: "floor_log10 x \<le> 11"
        using pos False assms(2) by (intro floor_log10_bound) auto
      have "round_half_up (pow10 (floor_log10 x - 19)) x = x"
        by (rule round_half_up_multiple [OF pow10_pos scale8_multiple_of_pow10 [OF i b]])
      with pos False show ?thesis by (simp add: precision20_def)
    qed
  qed
qed

lemma bit_length_pos: "0 < n \<Longrightarrow> 0 < bit_length n"
  by (subst bit_length.simps) simp

lemma bit_length_bound: "n < 2 ^ k \<Longrightarrow> bit_length n \<le> k"
proof (induction k arbitrary: n)
  case 0
  then show ?case by (simp add: bit_length.simps)
next
  case (Suc k)
  show ?case
  proof (cases "n = 0")
    case True
    then show ?thesis by (simp add: bit_length.simps)
  next
    case False
    from Suc.prems have "n div 2 < 2 ^ k"
      by (simp add: less_mult_imp_div_less mult.commute)
    then have "bit_length (n div 2) \<le> k" by (rule Suc.IH)
    with False show ?thesis by (subst bit_length.simps) simp
  qed
qed

lemma round_half_even_of_int [simp]: "round_half_even (of_int k) = k"
  by (simp add: round_half_even_def)

lemma pow2_pos: "0 < pow2 e"
  by (simp add: pow2_def)

lemma floor_log2_nat:
  assumes "0 < n"
  shows "floor_log2 (of_nat n) = int (bit_length n) - 1" and "0 \<le> floor_log2 (of_nat n)"
proof -
  have "(1::rat) \<le> of_nat n" using assms by simp
  then show e: "floor_log2 (of_nat n) = int (bit_length n) - 1"
    by (simp add: floor_log2_def)
  show "0 \<le> floor_log2 (of_nat n)"
    using bit_length_pos [OF assms] by (simp add: e)
qed

text \<open>The binary64 value of a natural number is a natural number.\<close>

lemma binary64_magnitude_nat:
  assumes "0 < n"
  shows "\<exists>m::nat. binary64_magnitude (of_nat n) = of_nat m"
proof -
  define e where "e = floor_log2 (of_nat n)"
  have e0: "0 \<le> e" using floor_log2_nat(2) [OF assms] by (simp add: e_def)
  then have m: "max e (- 1022) = e" by simp
  show ?thesis
  proof (cases "52 \<le> e")
    case True
    then have q: "pow2 (e - 52) = of_nat (2 ^ nat (e - 52))"
      by (simp add: pow2_def)
    have "0 \<le> round_half_even (of_nat n / of_nat (2 ^ nat (e - 52)))"
      by (simp add: round_half_even_def)
    then obtain k :: nat where k: "round_half_even (of_nat n / of_nat (2 ^ nat (e - 52))) = int k"
      using nonneg_int_cases by blast
    have "binary64_magnitude (of_nat n) = of_nat (k * 2 ^ nat (e - 52))"
      unfolding binary64_magnitude_def nearest_multiple_def e_def [symmetric] m q k by simp
    then show ?thesis by blast
  next
    case False
    then have q: "pow2 (e - 52) = 1 / 2 ^ nat (52 - e)"
      by (simp add: pow2_def)
    have d: "(of_nat n :: rat) / (1 / 2 ^ nat (52 - e)) = of_int (int n * 2 ^ nat (52 - e))"
      by simp
    have "binary64_magnitude (of_nat n) = of_nat n"
      unfolding binary64_magnitude_def nearest_multiple_def e_def [symmetric] m q d
        round_half_even_of_int
      by simp
    then show ?thesis by blast
  qed
qed

lemma binary64_small_nat:
  assumes "n < 2 ^ 53"
  shows "binary64 (of_nat n) = Num (of_nat n)"
proof (cases "n = 0")
  case True
  then show ?thesis by (simp add: binary64_def)
next
  case False
  then have pos: "0 < n" by simp
  define e where "e = floor_log2 (of_nat n)"
  have e0: "0 \<le> e" using floor_log2_nat(2) [OF pos] by (simp add: e_def)
  then have m: "max e (- 1022) = e" by simp
  have "bit_length n \<le> 53" using assms by (rule bit_length_bound)
  then have e52: "e \<le> 52" using floor_log2_nat(1) [OF pos] by (simp add: e_def)
  then have q: "pow2 (e - 52) = 1 / 2 ^ nat (52 - e)"
    by (simp add: pow2_def)
  have d: "(of_nat n :: rat) / (1 / 2 ^ nat (52 - e)) = of_int (int n * 2 ^ nat (52 - e))"
    by simp
  have mag: "binary64_magnitude (of_nat n) = of_nat n"
    unfolding binary64_magnitude_def nearest_multiple_def e_def [symmetric] m q d
      round_half_even_of_int
    by simp
  have "(of_nat n :: rat) < 2 ^ 53" using assms by (metis of_nat_less_iff of_nat_numeral of_nat_power)
  also have "\<dots> < 2 ^ 1024" by simp
  finally have small: "\<not> pow2 1024 \<le> of_nat n" by (simp add: pow2_def)
  show ?thesis
    using False small by (simp add: binary64_def mag)
qed

lemma binary64_1: "binary64 1 = Num 1"
  using binary64_small_nat [of 1] by simp

lemma binary64_40: "binary64 40 = Num 40"
  using binary64_small_nat [of 40] by simp

lemma binary64_60: "binary64 60 = Num 60"
  using binary64_small_nat [of 60] by simp

lemma binary64_100: "binary64 100 = Num 100"
  using binary64_small_nat [of 100] by simp

lemma binary64_1e11: "binary64 100000000000 = Num 100000000000"
  using binary64_small_nat [of 100000000000] by simp

lemma binary64_below_1e11: "binary64 (19999999999999999 / 200000) = Num 100000000000"
proof -
  have e: "floor_log2 (19999999999999999 / 200000) = 36"
    by (simp add: floor_log2_def bit_length.simps)
  have m: "binary64_magnitude (19999999999999999 / 200000) = 100000000000"
    by (simp add: binary64_magnitude_def e nearest_multiple_def pow2_def round_half_even_def)
  show ?thesis
    by (simp add: binary64_def pow2_def m)
qed

lemma binary64_above_1e11: "binary64 (10000000000000000001 / 100000000) = Num 100000000000"
proof -
  have e: "floor_log2 (10000000000000000001 / 100000000) = 36"
    by (simp add: floor_log2_def bit_length.simps)
  have m: "binary64_magnitude (10000000000000000001 / 100000000) = 100000000000"
    by (simp add: binary64_magnitude_def e nearest_multiple_def pow2_def round_half_even_def)
  show ?thesis
    by (simp add: binary64_def pow2_def m)
qed

lemma binary64_5e6:
  "binary64 (1 / 200000) = Num (5902958103587057 / 1180591620717411303424)"
proof -
  have e: "floor_log2 (1 / 200000) = - 18"
    by (simp add: floor_log2_def bit_length.simps)
  have m: "binary64_magnitude (1 / 200000) = 5902958103587057 / 1180591620717411303424"
    by (simp add: binary64_magnitude_def e nearest_multiple_def pow2_def round_half_even_def)
  show ?thesis
    by (simp add: binary64_def pow2_def m)
qed

lemma binary64_neg_5e6:
  "binary64 (- (1 / 200000)) = Num (- (5902958103587057 / 1180591620717411303424))"
proof -
  have e: "floor_log2 (1 / 200000) = - 18"
    by (simp add: floor_log2_def bit_length.simps)
  have m: "binary64_magnitude (1 / 200000) = 5902958103587057 / 1180591620717411303424"
    by (simp add: binary64_magnitude_def e nearest_multiple_def pow2_def round_half_even_def)
  show ?thesis
    by (simp add: binary64_def pow2_def m)
qed

lemma shortest_decimal_40: "shortest_decimal 40 = 40"
proof -
  have n: "floor_log10 40 = 1"
    by (simp add: floor_log10_def digits10.simps)
  have t: "try_quantum (pow10 1) 40 = Some 40"
    by (simp add: pow10_def try_quantum_def try_multiples_def denotes_def binary64_40)
  show ?thesis
    by (simp add: shortest_decimal_def n) (subst shortest_from.simps, simp add: t)
qed

lemma shortest_decimal_60: "shortest_decimal 60 = 60"
proof -
  have n: "floor_log10 60 = 1"
    by (simp add: floor_log10_def digits10.simps)
  have t: "try_quantum (pow10 1) 60 = Some 60"
    by (simp add: pow10_def try_quantum_def try_multiples_def denotes_def binary64_60)
  show ?thesis
    by (simp add: shortest_decimal_def n) (subst shortest_from.simps, simp add: t)
qed

lemma shortest_decimal_100: "shortest_decimal 100 = 100"
proof -
  have n: "floor_log10 100 = 2"
    by (simp add: floor_log10_def digits10.simps)
  have t: "try_quantum (pow10 2) 100 = Some 100"
    by (simp add: pow10_def try_quantum_def try_multiples_def denotes_def binary64_100)
  show ?thesis
    by (simp add: shortest_decimal_def n) (subst shortest_from.simps, simp add: t)
qed

lemma shortest_decimal_1e11: "shortest_decimal 100000000000 = 100000000000"
proof -
  have n: "floor_log10 100000000000 = 11"
    by (simp add: floor_log10_def digits10.simps)
  have t: "try_quantum (pow10 11) 100000000000 = Some 100000000000"
    by (simp add: pow10_def try_quantum_def try_multiples_def denotes_def binary64_1e11)
  show ?thesis
    by (simp add: shortest_decimal_def n) (subst shortest_from.simps, simp add: t)
qed

lemma shortest_decimal_neg_5e6:
  "shortest_decimal (- (5902958103587057 / 1180591620717411303424)) = - (1 / 200000)"
proof -
  have n: "floor_log10 (5902958103587057 / 1180591620717411303424) = - 6"
    by (simp add: floor_log10_def digits10.simps)
  have q: "pow10 (- 6) = 1 / 1000000"
    by (simp add: pow10_def)
  have t: "try_quantum (1 / 1000000) (5902958103587057 / 1180591620717411303424) =
             Some (1 / 200000)"
    by (simp add: try_quantum_def try_multiples_def denotes_def binary64_5e6)
  show ?thesis
    by (simp add: shortest_decimal_def n) (subst shortest_from.simps, simp add: q t)
qed

lemma decimal_20_8_40: "decimal_20_8 (Num 40) = Inr 40"
  by (simp add: shortest_decimal_40 numeric_20_8_def round_scale8_def)

lemma decimal_20_8_60: "decimal_20_8 (Num 60) = Inr 60"
  by (simp add: shortest_decimal_60 numeric_20_8_def round_scale8_def)

lemma decimal_20_8_100: "decimal_20_8 (Num 100) = Inr 100"
  by (simp add: shortest_decimal_100 numeric_20_8_def round_scale8_def)

lemma decimal_20_8_1e11: "decimal_20_8 (Num 100000000000) = Inr 100000000000"
  by (simp add: shortest_decimal_1e11 numeric_20_8_def round_scale8_def)

lemma decimal_20_8_neg_5e6:
  "decimal_20_8 (Num (- (5902958103587057 / 1180591620717411303424))) =
     Inr (- (1 / 200000))"
  by (simp add: shortest_decimal_neg_5e6 numeric_20_8_def round_scale8_def)

section \<open>The structure of a transfer\<close>

lemma lockedIds_cases:
  "lockedIds x y = (if x \<le> y then [x, y] else [y, x])"
  by (auto simp: lockedIds_def)

lemma ledgerEntry_findMany_lockLog [simp]:
  "ledgerEntry_findMany U (db\<lparr>lockLog := l\<rparr>) a = ledgerEntry_findMany U db a"
  by (simp add: ledgerEntry_findMany_def split: option.splits)

lemma getBalance_lockLog [simp]:
  "getBalance U (db\<lparr>lockLog := l\<rparr>) a = getBalance U db a"
  by (simp add: getBalance_def)

lemma account_findUnique_lockLog [simp]:
  "account_findUnique U (db\<lparr>lockLog := l\<rparr>) a = account_findUnique U db a"
  by (simp add: account_findUnique_def split: option.splits)

text \<open>The callback once both lock statements and both lookups have succeeded.\<close>

lemma transfer_tx_decision:
  assumes "cast_uuid U src = Some cs" and "cast_uuid U dst = Some cd"
    and "account_findUnique U db src = Inr (Some s)"
    and "account_findUnique U db dst = Inr (Some d)"
    and "getBalance U db src = Inr balance"
  shows "transfer_tx U g src dst amount cur db =
           (if lessThan_decimal (Dec balance) amount
            then (Inl (UnprocessableEntity ''insufficient funds''),
                  db\<lparr>lockLog := lockLog db @ lockedIds src dst\<rparr>)
            else write_phase U g src dst amount cur
                   (db\<lparr>lockLog := lockLog db @ lockedIds src dst\<rparr>))"
  using assms
  by (simp add: transfer_tx_def queryRaw_lock_def lockedIds_cases)

lemma transaction_create_Inr:
  assumes "transaction_create U tx i now ty src dst amt cur st = Inr (row, tx')"
  shows "\<exists>s d a. client_uuid U src = Some s \<and> client_uuid U dst = Some d
       \<and> decimal_20_8 amt = Inr a \<and> i \<notin> set (map t_id (transactions tx))
       \<and> row = \<lparr>t_id = i, t_type = ty, t_sourceAccountId = Some s,
                 t_destinationAccountId = Some d, t_amount = a, t_currency = cur,
                 t_status = st, t_createdAt = now\<rparr>
       \<and> tx' = tx\<lparr>transactions := transactions tx @ [row]\<rparr>"
  using assms unfolding transaction_create_def
  by (auto simp: Let_def split: option.splits sum.splits if_splits)

lemma ledgerEntry_create_Inr:
  assumes "ledgerEntry_create U tx i now acct txn ty amt cur = Inr (row, tx')"
  shows "\<exists>a v. client_uuid U acct = Some a \<and> decimal_20_8 amt = Inr v
       \<and> row = \<lparr>e_id = i, e_accountId = a, e_transactionId = txn, e_entryType = ty,
                 e_amount = v, e_currency = cur, e_createdAt = now\<rparr>
       \<and> tx' = tx\<lparr>ledgerEntries := ledgerEntries tx @ [row]\<rparr>"
  using assms unfolding ledgerEntry_create_def
  by (auto simp: Let_def split: option.splits sum.splits if_splits)

lemma account_update_Inr:
  assumes "account_update U tx i bal = Inr tx'"
  shows "lockLog tx' = lockLog tx \<and> transactions tx' = transactions tx
       \<and> ledgerEntries tx' = ledgerEntries tx
       \<and> map a_id (accounts tx') = map a_id (accounts tx)"
  using assms unfolding account_update_def
  by (auto simp: o_def split: option.splits sum.splits if_splits)

text \<open>A write phase that returns has appended the record and the two entries.\<close>

lemma write_phase_Inr:
  assumes "write_phase U g src dst amount cur tx = (Inr t, tx')"
  shows "\<exists>s d a. client_uuid U src = Some s \<and> client_uuid U dst = Some d
     \<and> decimal_20_8 (toNumber amount) = Inr a
     \<and> t = \<lparr>t_id = g_txId g, t_type = ''transfer'', t_sourceAccountId = Some s,
             t_destinationAccountId = Some d, t_amount = a, t_currency = cur,
             t_status = ''completed'', t_createdAt = g_now g\<rparr>
     \<and> g_txId g \<notin> set (map t_id (transactions tx))
     \<and> transactions tx' = transactions tx @ [t]
     \<and> ledgerEntries tx' = ledgerEntries tx @
           [\<lparr>e_id = g_debitId g, e_accountId = s, e_transactionId = g_txId g,
             e_entryType = ''debit'', e_amount = a, e_currency = cur, e_createdAt = g_now g\<rparr>,
            \<lparr>e_id = g_creditId g, e_accountId = d, e_transactionId = g_txId g,
             e_entryType = ''credit'', e_amount = a, e_currency = cur, e_createdAt = g_now g\<rparr>]
     \<and> lockLog tx' = lockLog tx
     \<and> map a_id (accounts tx') = map a_id (accounts tx)"
proof -
  from assms obtain row tx1 debit tx2 credit tx3 bs bd tx4 where
    c1: "transaction_create U tx (g_txId g) (g_now g) ''transfer'' src dst (toNumber amount)
           cur ''completed'' = Inr (row, tx1)"
    and c2: "ledgerEntry_create U tx1 (g_debitId g) (g_now g) src (t_id row) ''debit''
           (toNumber amount) cur = Inr (debit, tx2)"
    and c3: "ledgerEntry_create U tx2 (g_creditId g) (g_now g) dst (t_id row) ''credit''
           (toNumber amount) cur = Inr (credit, tx3)"
    and u1: "account_update U tx3 src (toNumber (Dec bs)) = Inr tx4"
    and u2: "account_update U tx4 dst (toNumber (Dec bd)) = Inr tx'"
    and t: "t = row"
    unfolding write_phase_def
    by (auto split: sum.splits prod.splits)
  from transaction_create_Inr [OF c1] obtain s d a where
    r: "client_uuid U src = Some s" "client_uuid U dst = Some d"
       "decimal_20_8 (toNumber amount) = Inr a"
       "g_txId g \<notin> set (map t_id (transactions tx))"
       "row = \<lparr>t_id = g_txId g, t_type = ''transfer'', t_sourceAccountId = Some s,
                t_destinationAccountId = Some d, t_amount = a, t_currency = cur,
                t_status = ''completed'', t_createdAt = g_now g\<rparr>"
       "tx1 = tx\<lparr>transactions := transactions tx @ [row]\<rparr>"
    by blast
  from ledgerEntry_create_Inr [OF c2] r have
    d: "tx2 = tx1\<lparr>ledgerEntries := ledgerEntries tx1 @
           [\<lparr>e_id = g_debitId g, e_accountId = s, e_transactionId = g_txId g,
             e_entryType = ''debit'', e_amount = a, e_currency = cur,
             e_createdAt = g_now g\<rparr>]\<rparr>"
    by auto
  from ledgerEntry_create_Inr [OF c3] r have
    c: "tx3 = tx2\<lparr>ledgerEntries := ledgerEntries tx2 @
           [\<lparr>e_id = g_creditId g, e_accountId = d, e_transactionId = g_txId g,
             e_entryType = ''credit'', e_amount = a, e_currency = cur,
             e_createdAt = g_now g\<rparr>]\<rparr>"
    by auto
  from account_update_Inr [OF u1] account_update_Inr [OF u2] have
    k: "lockLog tx' = lockLog tx3" "transactions tx' = transactions tx3"
       "ledgerEntries tx' = ledgerEntries tx3"
       "map a_id (accounts tx') = map a_id (accounts tx3)"
    by simp_all
  show ?thesis
    using r k by (simp add: t d c)
qed


text \<open>The write phase fails on storage errors only.\<close>

lemma decimal_20_8_Inl: "decimal_20_8 n = Inl e \<Longrightarrow> e = StorageError"
  by (cases n) (auto simp: numeric_20_8_def split: if_splits)

lemma write_phase_Inl:
  assumes "write_phase U g src dst amount cur tx = (Inl e, tx')"
  shows "e = StorageError"
  using assms
  unfolding write_phase_def transaction_create_def ledgerEntry_create_def account_update_def
    getBalance_def ledgerEntry_findMany_def
  by (auto simp: Let_def split: sum.splits prod.splits option.splits if_splits
           dest: decimal_20_8_Inl)

text \<open>
  A callback that throws \<^verbatim>\<open>UnprocessableEntity\<close> has written nothing by then: the tables
  are untouched before the rollback.
\<close>

lemma transfer_tx_rejects_before_writing:
  assumes "transfer_tx U g src dst amount cur db = (Inl (UnprocessableEntity m), tx)"
  shows "tx = db\<lparr>lockLog := lockLog db @ lockedIds src dst\<rparr>"
  using assms unfolding transfer_tx_def queryRaw_lock_def
  by (auto simp: lockedIds_cases split: option.splits sum.splits if_splits
           dest: write_phase_Inl)

lemma transfer_Inl_tables:
  assumes "transfer U g db src dst amount cur = (Inl e, db')"
  shows "accounts db' = accounts db \<and> transactions db' = transactions db
       \<and> ledgerEntries db' = ledgerEntries db"
  using assms
  by (auto simp: transfer_def prisma_transaction_def split: sum.splits prod.splits)

lemma transfer_Inr_write_phase:
  assumes "transfer U g db src dst amount cur = (Inr t, db')"
  shows "\<exists>a s d balance. amount = Numeral a
      \<and> write_phase U g src dst a cur (db\<lparr>lockLog := lockLog db @ lockedIds src dst\<rparr>)
          = (Inr t, db')
      \<and> cast_uuid U src \<noteq> None \<and> cast_uuid U dst \<noteq> None
      \<and> account_findUnique U db src = Inr (Some s)
      \<and> account_findUnique U db dst = Inr (Some d)
      \<and> getBalance U db src = Inr balance
      \<and> \<not> lessThan_decimal (Dec balance) a"
proof -
  from assms obtain a where a: "amount = Numeral a"
    and c: "transfer_tx U g src dst a cur db = (Inr t, db')"
    by (cases amount)
       (auto simp: transfer_def prisma_transaction_def split: sum.splits prod.splits)
  from c show ?thesis
    unfolding transfer_tx_def queryRaw_lock_def
    by (auto simp: a lockedIds_cases split: option.splits sum.splits if_splits)
qed

text \<open>A committed transfer keeps the foreign keys of the ledger.\<close>

lemma account_findUnique_Some:
  assumes "account_findUnique U db i = Inr (Some a)"
  shows "\<exists>u. client_uuid U i = Some u \<and> u \<in> set (map a_id (accounts db))"
  using assms unfolding account_findUnique_def
  by (auto simp: find_Some_iff split: option.splits)

lemma transfer_preserves_fk:
  assumes "transfer U g db src dst amount cur = (Inr t, db')"
    and "fk_ledgerEntry_transaction db" and "fk_ledgerEntry_account db"
  shows "fk_ledgerEntry_transaction db' \<and> fk_ledgerEntry_account db'"
proof -
  from transfer_Inr_write_phase [OF assms(1)] obtain a sa da where
    w: "write_phase U g src dst a cur (db\<lparr>lockLog := lockLog db @ lockedIds src dst\<rparr>)
          = (Inr t, db')"
    and fs: "account_findUnique U db src = Inr (Some sa)"
    and fd: "account_findUnique U db dst = Inr (Some da)"
    by blast
  from write_phase_Inr [OF w] obtain s d v where
    rs: "client_uuid U src = Some s" and rd: "client_uuid U dst = Some d"
    and t: "t = \<lparr>t_id = g_txId g, t_type = ''transfer'', t_sourceAccountId = Some s,
             t_destinationAccountId = Some d, t_amount = v, t_currency = cur,
             t_status = ''completed'', t_createdAt = g_now g\<rparr>"
    and txs: "transactions db' = transactions db @ [t]"
    and les: "ledgerEntries db' = ledgerEntries db @
           [\<lparr>e_id = g_debitId g, e_accountId = s, e_transactionId = g_txId g,
             e_entryType = ''debit'', e_amount = v, e_currency = cur, e_createdAt = g_now g\<rparr>,
            \<lparr>e_id = g_creditId g, e_accountId = d, e_transactionId = g_txId g,
             e_entryType = ''credit'', e_amount = v, e_currency = cur, e_createdAt = g_now g\<rparr>]"
    and ac: "map a_id (accounts db') = map a_id (accounts db)"
    by auto
  have src: "s \<in> set (map a_id (accounts db))"
    using account_findUnique_Some [OF fs] rs by auto
  have dst: "d \<in> set (map a_id (accounts db))"
    using account_findUnique_Some [OF fd] rd by auto
  have ts: "set (map t_id (transactions db')) = insert (g_txId g) (set (map t_id (transactions db)))"
    by (simp add: txs t)
  have es: "set (map e_transactionId (ledgerEntries db')) =
               insert (g_txId g) (set (map e_transactionId (ledgerEntries db)))"
    by (simp add: les)
  have ea: "set (map e_accountId (ledgerEntries db')) =
               insert s (insert d (set (map e_accountId (ledgerEntries db))))"
    by (simp add: les)
  have 1: "fk_ledgerEntry_transaction db'"
    using assms(2) unfolding fk_ledgerEntry_transaction_def ts es by blast
  have 2: "fk_ledgerEntry_account db'"
    using assms(3) src dst unfolding fk_ledgerEntry_account_def ea ac by blast
  show ?thesis
    using 1 2 by simp
qed

text \<open>
  The amount a committed transfer records is the column value of \<^verbatim>\<open>amount.toNumber()\<close>,
  and the balances derived from the ledger move by the recorded amount.
\<close>

lemma transfer_records_toNumber:
  assumes "transfer U g db src dst (Numeral amount) cur = (Inr t, db')"
  shows "decimal_20_8 (toNumber amount) = Inr (t_amount t)"
proof -
  from transfer_Inr_write_phase [OF assms] have
    w: "write_phase U g src dst amount cur (db\<lparr>lockLog := lockLog db @ lockedIds src dst\<rparr>)
          = (Inr t, db')"
    by simp
  from write_phase_Inr [OF w] show ?thesis
    by auto
qed

lemma balance_loop_append:
  "balance_loop b (xs @ ys) = balance_loop (balance_loop b xs) ys"
  by (induction xs arbitrary: b) simp_all

lemma transfer_commit_balances:
  assumes "transfer U g db src dst amount cur = (Inr t, db')"
    and "client_uuid U src = Some s" and "client_uuid U dst = Some d" and "s \<noteq> d"
    and "getBalance U db src = Inr bs" and "getBalance U db dst = Inr bd"
  shows "getBalance U db' src = Inr (minus_decimal bs (t_amount t))"
    and "getBalance U db' dst = Inr (plus_decimal bd (t_amount t))"
proof -
  from transfer_Inr_write_phase [OF assms(1)] obtain a where
    w: "write_phase U g src dst a cur (db\<lparr>lockLog := lockLog db @ lockedIds src dst\<rparr>)
          = (Inr t, db')"
    by blast
  from write_phase_Inr [OF w] assms(2,3) obtain v where
    t: "t_amount t = v"
    and les: "ledgerEntries db' = ledgerEntries db @
           [\<lparr>e_id = g_debitId g, e_accountId = s, e_transactionId = g_txId g,
             e_entryType = ''debit'', e_amount = v, e_currency = cur, e_createdAt = g_now g\<rparr>,
            \<lparr>e_id = g_creditId g, e_accountId = d, e_transactionId = g_txId g,
             e_entryType = ''credit'', e_amount = v, e_currency = cur, e_createdAt = g_now g\<rparr>]"
    by auto
  show "getBalance U db' src = Inr (minus_decimal bs (t_amount t))"
    using assms(2,4,5)
    by (simp add: getBalance_def ledgerEntry_findMany_def balance_loop_append les t)
  show "getBalance U db' dst = Inr (plus_decimal bd (t_amount t))"
    using assms(3,4,6)
    by (simp add: getBalance_def ledgerEntry_findMany_def balance_loop_append les t)
qed

section \<open>Properties of the balance calculator\<close>

lemma scale8_add: "scale8 x \<Longrightarrow> scale8 y \<Longrightarrow> scale8 (x + y)"
  by (simp add: scale8_Ints distrib_right)

lemma scale8_diff: "scale8 x \<Longrightarrow> scale8 y \<Longrightarrow> scale8 (x - y)"
  by (simp add: scale8_Ints left_diff_distrib)

lemma scale8_0: "scale8 0"
  by (simp add: scale8_def)

lemma balance_loop_exact:
  assumes "running_totals_fit b es" and "scale8 b"
  shows "balance_loop b es = foldl exact_step b es"
  using assms
proof (induction es arbitrary: b)
  case Nil
  then show ?case by simp
next
  case (Cons e es)
  from Cons.prems(1) have a: "scale8 (e_amount e)"
    and n: "\<bar>exact_step b e\<bar> < 1000000000000"
    and r: "running_totals_fit (exact_step b e) es"
    by (simp_all split: if_splits)
  have s: "scale8 (exact_step b e)"
    using a Cons.prems(2) by (simp add: exact_step_def scale8_add scale8_diff)
  have step: "(if e_entryType e = ''credit'' then plus_decimal b (e_amount e)
               else if e_entryType e = ''debit'' then minus_decimal b (e_amount e)
               else b) = exact_step b e"
    using precision20_exact [OF s n]
    by (auto simp: exact_step_def plus_decimal_def minus_decimal_def)
  show ?case
    using Cons.IH [OF r s] by (simp add: step)
qed

lemma foldl_exact_step_sums:
  "foldl exact_step b es =
     b + sum_list (map e_amount (filter (\<lambda>e. e_entryType e = ''credit'') es))
       - sum_list (map e_amount (filter (\<lambda>e. e_entryType e = ''debit'') es))"
  by (induction es arbitrary: b) (simp_all add: exact_step_def)

lemma exact_step_eq:
  "exact_step = (\<lambda>acc e. if e_entryType e = ''credit'' then acc + e_amount e
                     else if e_entryType e = ''debit'' then acc - e_amount e
                     else acc)"
  by (rule ext)+ (simp add: exact_step_def)

section \<open>Transfers on the example ledger\<close>

lemma reads_A: "example_reading acct_A = Some acct_A"
  by (simp add: example_reading_def)

lemma reads_A_capitals: "example_reading acct_A_capitals = Some acct_A"
  by (simp add: example_reading_def)

lemma reads_B: "example_reading acct_B = Some acct_B"
  by (simp add: example_reading_def acct_A_def acct_A_capitals_def acct_B_def)

lemma reads_unknown: "example_reading acct_unknown = Some acct_unknown"
  by (simp add: example_reading_def acct_A_def acct_A_capitals_def acct_B_def acct_unknown_def)

lemma example_cast [simp]: "cast_uuid example_readers = example_reading"
  by (simp add: example_readers_def)

lemma example_client [simp]: "client_uuid example_readers = example_reading"
  by (simp add: example_readers_def)

lemma accts_distinct:
  "acct_A \<noteq> acct_B" "acct_B \<noteq> acct_A" "acct_A \<noteq> acct_unknown" "acct_unknown \<noteq> acct_A"
  "acct_B \<noteq> acct_unknown" "acct_unknown \<noteq> acct_B" "acct_A \<noteq> acct_A_capitals"
  "acct_A_capitals \<noteq> acct_A" "acct_A \<noteq> []" "acct_B \<noteq> []" "acct_A_capitals \<noteq> []"
  "acct_unknown \<noteq> []"
  by (simp_all add: acct_A_def acct_B_def acct_unknown_def acct_A_capitals_def)

lemma funded_balance_A:
  "precision20 deposit = deposit \<Longrightarrow>
   getBalance example_readers (funded_db deposit) acct_A = Inr deposit"
  by (simp add: getBalance_def ledgerEntry_findMany_def funded_db_def reads_A plus_decimal_def)

lemma funded_balance_B: "getBalance example_readers (funded_db deposit) acct_B = Inr 0"
  by (simp add: getBalance_def ledgerEntry_findMany_def funded_db_def reads_B accts_distinct)

lemma funded_find_A:
  "account_findUnique example_readers (funded_db deposit) acct_A =
     Inr (Some (accounts (funded_db deposit) ! 0))"
  by (simp add: account_findUnique_def funded_db_def reads_A)

lemma funded_find_A_capitals:
  "account_findUnique example_readers (funded_db deposit) acct_A_capitals =
     Inr (Some (accounts (funded_db deposit) ! 0))"
  by (simp add: account_findUnique_def funded_db_def reads_A_capitals)

lemma funded_find_B:
  "account_findUnique example_readers (funded_db deposit) acct_B =
     Inr (Some (accounts (funded_db deposit) ! 1))"
  by (simp add: account_findUnique_def funded_db_def reads_B accts_distinct)

lemma funded_find_unknown:
  "account_findUnique example_readers (funded_db deposit) acct_unknown = Inr None"
  by (simp add: account_findUnique_def funded_db_def reads_unknown accts_distinct)

lemma locks_A_B: "lockedIds acct_A acct_B = [acct_A, acct_B]"
  by (simp add: lockedIds_cases acct_A_def acct_B_def)

lemma locks_A_unknown: "lockedIds acct_A acct_unknown = [acct_A, acct_unknown]"
  by (simp add: lockedIds_cases acct_A_def acct_unknown_def)

lemma locks_A_capitals: "lockedIds acct_A acct_A_capitals = [acct_A_capitals, acct_A]"
  by (simp add: lockedIds_cases acct_A_def acct_A_capitals_def)

lemma funded_lockLog: "lockLog (funded_db deposit) = []"
  by (simp add: funded_db_def)

lemma funded_write:
  assumes "decimal_20_8 (binary64 amt) = Inr stored"
    and "precision20 deposit = deposit"
    and "precision20 (deposit - stored) = deposit - stored"
    and "precision20 stored = stored"
    and "decimal_20_8 (binary64 (deposit - stored)) = Inr (deposit - stored)"
    and "decimal_20_8 (binary64 stored) = Inr stored"
  shows "write_phase example_readers scenario_generated acct_A acct_B (Dec amt) cur
           ((funded_db deposit)\<lparr>lockLog := [acct_A, acct_B]\<rparr>)
         = (Inr (committed_result stored cur), committed_db deposit stored cur)"
  using assms
  by (simp add: write_phase_def transaction_create_def ledgerEntry_create_def
      account_update_def getBalance_def ledgerEntry_findMany_def funded_db_def
      scenario_generated_def committed_result_def committed_db_def reads_A reads_B
      accts_distinct plus_decimal_def minus_decimal_def Let_def)

lemma funded_transfer:
  assumes "\<not> deposit < amt"
    and "decimal_20_8 (binary64 amt) = Inr stored"
    and "precision20 deposit = deposit"
    and "precision20 (deposit - stored) = deposit - stored"
    and "precision20 stored = stored"
    and "decimal_20_8 (binary64 (deposit - stored)) = Inr (deposit - stored)"
    and "decimal_20_8 (binary64 stored) = Inr stored"
  shows "transfer example_readers scenario_generated (funded_db deposit) acct_A acct_B
           (Numeral (Dec amt)) cur
         = (Inr (committed_result stored cur), committed_db deposit stored cur)"
proof -
  have d: "transfer_tx example_readers scenario_generated acct_A acct_B (Dec amt) cur
             (funded_db deposit)
           = write_phase example_readers scenario_generated acct_A acct_B (Dec amt) cur
               ((funded_db deposit)\<lparr>lockLog := [acct_A, acct_B]\<rparr>)"
    using assms(1)
    by (subst transfer_tx_decision [OF _ _ funded_find_A funded_find_B
          funded_balance_A [OF assms(3)]])
       (simp_all add: reads_A reads_B locks_A_B funded_lockLog)
  show ?thesis
    by (simp add: transfer_def prisma_transaction_def d funded_write [OF assms(2-7)])
qed

lemma toUpperCase_USD: "toUpperCase ''USD'' = ''USD''"
  by (simp add: toUpperCase_def)

lemma funded_post_transfers:
  assumes "0 < amt" and "\<not> deposit < amt"
    and "decimal_20_8 (binary64 amt) = Inr stored"
    and "precision20 deposit = deposit"
    and "precision20 (deposit - stored) = deposit - stored"
    and "precision20 stored = stored"
    and "decimal_20_8 (binary64 (deposit - stored)) = Inr (deposit - stored)"
    and "decimal_20_8 (binary64 stored) = Inr stored"
  shows "post_transfers example_readers scenario_generated (funded_db deposit)
           (transfer_request acct_A acct_B amt ''USD'')
         = (Json 201 (committed_result stored ''USD''), committed_db deposit stored ''USD'')"
  using assms(1)
  by (simp add: post_transfers_def transfer_request_def isNaN_def lessThanOrEqualTo_def
      toUpperCase_USD accts_distinct funded_transfer [OF assms(2-8)])

lemma funded_post_transfers_insufficient:
  assumes "0 < amt" and "deposit < amt" and "precision20 deposit = deposit"
  shows "post_transfers example_readers g (funded_db deposit)
           (transfer_request acct_A acct_B amt ''USD'')
         = (ErrorJson 422 ''insufficient funds'',
            (funded_db deposit)\<lparr>lockLog := [acct_A, acct_B]\<rparr>)"
proof -
  have d: "transfer_tx example_readers g acct_A acct_B (Dec amt) ''USD'' (funded_db deposit)
           = (Inl (UnprocessableEntity ''insufficient funds''),
              (funded_db deposit)\<lparr>lockLog := [acct_A, acct_B]\<rparr>)"
    using assms(2)
    by (subst transfer_tx_decision [OF _ _ funded_find_A funded_find_B
          funded_balance_A [OF assms(3)]])
       (simp_all add: reads_A reads_B locks_A_B funded_lockLog)
  show ?thesis
    using assms(1)
    by (simp add: post_transfers_def transfer_request_def isNaN_def lessThanOrEqualTo_def
        toUpperCase_USD accts_distinct transfer_def prisma_transaction_def d)
qed

lemma funded_fk_transaction: "fk_ledgerEntry_transaction (funded_db deposit)"
  by (simp add: fk_ledgerEntry_transaction_def funded_db_def)

lemma funded_fk_account: "fk_ledgerEntry_account (funded_db deposit)"
  by (simp add: fk_ledgerEntry_account_def funded_db_def)

lemma funded_unknown_account: "acct_unknown \<notin> set (map a_id (accounts (funded_db deposit)))"
  by (simp add: funded_db_def accts_distinct)

lemma precision20_0: "precision20 0 = 0"
  by (simp add: precision20_def)

lemma precision20_40: "precision20 40 = 40"
  by (rule precision20_exact) (simp_all add: scale8_def)

lemma precision20_60: "precision20 60 = 60"
  by (rule precision20_exact) (simp_all add: scale8_def)

lemma precision20_100: "precision20 100 = 100"
  by (rule precision20_exact) (simp_all add: scale8_def)

lemma precision20_1e11: "precision20 100000000000 = 100000000000"
  by (rule precision20_exact) (simp_all add: scale8_def)

lemma precision20_2e11: "precision20 200000000000 = 200000000000"
  by (rule precision20_exact) (simp_all add: scale8_def)

lemma precision20_below_1e11: "precision20 (19999999999999999 / 200000) = 19999999999999999 / 200000"
  by (rule precision20_exact) (simp_all add: scale8_def)

lemma precision20_neg_5e6: "precision20 (- (1 / 200000)) = - (1 / 200000)"
  by (rule precision20_exact) (simp_all add: scale8_def)

lemma scenario_transfer_40:
  "transfer example_readers scenario_generated scenario_db acct_A acct_B (Numeral (Dec 40)) cur
   = (Inr (committed_result 40 cur), committed_db 100 40 cur)"
  unfolding scenario_db_def
  by (rule funded_transfer)
     (simp_all add: binary64_40 binary64_60 decimal_20_8_40 decimal_20_8_60
        precision20_40 precision20_60 precision20_100 del: decimal_20_8.simps)

section \<open>Signs of the numeric conversions\<close>

lemma round_half_even_nonneg: "0 \<le> x \<Longrightarrow> 0 \<le> round_half_even x"
  by (simp add: round_half_even_def)

lemma binary64_magnitude_nonneg: "0 < a \<Longrightarrow> 0 \<le> binary64_magnitude a"
  using pow2_pos [of "max (floor_log2 a) (- 1022) - 52"]
  by (simp add: binary64_magnitude_def nearest_multiple_def round_half_even_nonneg)

lemma binary64_pos:
  assumes "binary64 d = Num v" and "0 < v"
  shows "0 < d"
proof (rule ccontr)
  assume "\<not> 0 < d"
  then consider "d = 0" | "d < 0" by linarith
  then show False
  proof cases
    case 1
    then show False using assms by (simp add: binary64_def)
  next
    case 2
    then have "0 \<le> binary64_magnitude \<bar>d\<bar>"
      by (simp add: binary64_magnitude_nonneg)
    then show False using assms 2 by (simp add: binary64_def split: if_splits)
  qed
qed

lemma binary64_nonneg:
  assumes "0 \<le> r"
  shows "binary64 r = NumInfinity \<or> (\<exists>s. binary64 r = Num s \<and> 0 \<le> s)"
  using assms binary64_magnitude_nonneg [of "\<bar>r\<bar>"]
  by (auto simp: binary64_def)

lemma denotes_pos: "denotes v a b = Some d \<Longrightarrow> 0 < v \<Longrightarrow> 0 < d"
  by (auto simp: denotes_def split: if_splits dest: binary64_pos)

lemma try_quantum_pos: "try_quantum q v = Some d \<Longrightarrow> 0 < v \<Longrightarrow> 0 < d"
  by (auto simp: try_quantum_def try_multiples_def split: if_splits dest: denotes_pos)

lemma shortest_from_pos: "0 < v \<Longrightarrow> 0 < shortest_from k n v"
proof (induction k n v rule: shortest_from.induct)
  case (1 k n v)
  show ?case
  proof (cases "17 < k")
    case True
    then show ?thesis using 1(2) by (subst shortest_from.simps) simp
  next
    case False
    show ?thesis
    proof (cases "try_quantum (pow10 (n - int k)) v")
      case None
      then show ?thesis
        using False 1(1) [OF False None 1(2)] by (subst shortest_from.simps) simp
    next
      case (Some d)
      then show ?thesis
        using False try_quantum_pos [OF Some 1(2)] by (subst shortest_from.simps) simp
    qed
  qed
qed

lemma shortest_decimal_neg: "r < 0 \<Longrightarrow> shortest_decimal r < 0"
  using shortest_from_pos [of "- r" 1 "floor_log10 (- r) + 1"]
  by (simp add: shortest_decimal_def)

lemma client_int64_nonneg:
  assumes "client_int64 x = Some s" and "0 \<le> s"
  shows "\<exists>r. x = Num r \<and> 0 \<le> r"
proof (cases x)
  case (Num r)
  have "0 \<le> r"
  proof (rule ccontr)
    assume "\<not> 0 \<le> r"
    then have "shortest_decimal r < 0"
      by (simp add: shortest_decimal_neg)
    then have "\<lfloor>shortest_decimal r\<rfloor> < 0"
      by linarith
    then show False
      using assms Num by (simp add: int64_of_text_def split: if_splits)
  qed
  then show ?thesis using Num by simp
qed (use assms in simp_all)

lemma has_more_empty:
  assumes "client_int64 x = Some s" and "0 \<le> s"
  shows "has_more x 0 0 = False"
proof -
  from client_int64_nonneg [OF assms] obtain r where r: "x = Num r" "0 \<le> r"
    by blast
  from binary64_nonneg [OF r(2)] show ?thesis
    by (auto simp: has_more_def r(1))
qed

section \<open>Evaluation of the ledger route\<close>

lemma no_account_no_entries:
  assumes "client_uuid U i = Some u"
    and "u \<notin> set (map a_id (accounts db))" and "fk_ledgerEntry_account db"
  shows "ledgerEntry_findMany U db i = Inr []"
  using assms unfolding fk_ledgerEntry_account_def ledgerEntry_findMany_def
  by (force simp: filter_empty_conv)

lemma parseInt_1: "parseInt (code_units ''1'') = Num 1"
  by (simp add: parseInt_def code_units_def is_space_def parse_digits_def digit_value_def
      binary64_1)

lemma parseInt_0: "parseInt (code_units ''0'') = Num 0"
  by (simp add: parseInt_def code_units_def is_space_def parse_digits_def digit_value_def
      binary64_def)

lemma parseInt_100: "parseInt (code_units ''100'') = Num 100"
  by (simp add: parseInt_def code_units_def is_space_def parse_digits_def digit_value_def
      binary64_100)

lemma parseInt_minus_1: "parseInt (code_units ''-1'') = Num (- 1)"
  by (simp add: parseInt_def code_units_def is_space_def parse_digits_def digit_value_def
      binary64_1 negate_def)

lemma shortest_decimal_1: "shortest_decimal 1 = 1"
proof -
  have n: "floor_log10 1 = 0"
    by (simp add: floor_log10_def digits10.simps)
  have t: "try_quantum (pow10 0) 1 = Some 1"
    by (simp add: pow10_def try_quantum_def try_multiples_def denotes_def binary64_1)
  show ?thesis
    by (simp add: shortest_decimal_def n) (subst shortest_from.simps, simp add: t)
qed

lemma shortest_decimal_minus_1: "shortest_decimal (- 1) = - 1"
proof -
  have n: "floor_log10 1 = 0"
    by (simp add: floor_log10_def digits10.simps)
  have t: "try_quantum (pow10 0) 1 = Some 1"
    by (simp add: pow10_def try_quantum_def try_multiples_def denotes_def binary64_1)
  show ?thesis
    by (simp add: shortest_decimal_def n) (subst shortest_from.simps, simp add: t)
qed

lemma client_int64_0: "client_int64 (Num 0) = Some 0"
  by (simp add: int64_of_text_def shortest_decimal_def)

lemma client_int64_1: "client_int64 (Num 1) = Some 1"
  by (simp add: int64_of_text_def shortest_decimal_1)

lemma client_int64_100: "client_int64 (Num 100) = Some 100"
  by (simp add: int64_of_text_def shortest_decimal_100)

lemma floor_minus_1: "\<lfloor>- 1 :: rat\<rfloor> = - 1"
  using floor_of_int [of "- 1", where ?'a = rat] by simp

lemma client_int64_minus_1: "client_int64 (Num (- 1)) = Some (- 1)"
  by (simp add: int64_of_text_def shortest_decimal_minus_1 floor_minus_1)

lemma limit_default: "min_1000 (or_default (parseInt (code_units ''100'')) (Num 100)) = Num 100"
  by (simp add: parseInt_100 or_default_def min_1000_def)

lemma limit_1: "min_1000 (or_default (parseInt (code_units ''1'')) (Num 100)) = Num 1"
  by (simp add: parseInt_1 or_default_def min_1000_def)

lemma offset_0: "or_default (parseInt (code_units ''0'')) (Num 0) = Num 0"
  by (simp add: parseInt_0 or_default_def)

lemma offset_minus_1: "or_default (parseInt (code_units ''-1'')) (Num 0) = Num (- 1)"
  by (simp add: parseInt_minus_1 or_default_def)

lemma funded_post_transfers_cur:
  assumes "0 < amt" and "\<not> deposit < amt"
    and "decimal_20_8 (binary64 amt) = Inr stored"
    and "precision20 deposit = deposit"
    and "precision20 (deposit - stored) = deposit - stored"
    and "precision20 stored = stored"
    and "decimal_20_8 (binary64 (deposit - stored)) = Inr (deposit - stored)"
    and "decimal_20_8 (binary64 stored) = Inr stored"
    and "length cur = 3" and "toUpperCase cur = cur"
  shows "post_transfers example_readers scenario_generated (funded_db deposit)
           (transfer_request acct_A acct_B amt cur)
         = (Json 201 (committed_result stored cur), committed_db deposit stored cur)"
proof -
  have "cur \<noteq> []" using assms(9) by auto
  then show ?thesis
    using assms(1,9,10)
    by (simp add: post_transfers_def transfer_request_def isNaN_def lessThanOrEqualTo_def
        accts_distinct funded_transfer [OF assms(2-8)])
qed

lemma toUpperCase_EUR: "toUpperCase ''EUR'' = ''EUR''"
  by (simp add: toUpperCase_def)

section \<open>The balance of an account\<close>

text \<open>
  Claim C1, as amended. For an account whose identifier the storage client reads, if the
  amounts of its ledger entries have at most eight fractional digits and, taking the
  entries in the order in which the storage returns them, every running total stays below
  \<open>10^12\<close> in magnitude, then the balance computed by \<^verbatim>\<open>getBalance\<close> is the fold over the
  entries of the account: starting from 0, each \<open>credit\<close> entry adds its amount and each
  \<open>debit\<close> entry subtracts its amount. Equivalently, the balance is the sum of the credit
  amounts minus the sum of the debit amounts of the account.
\<close>

theorem getBalance_sums_within_precision:
  assumes "client_uuid U acct = Some u"
    and "running_totals_fit 0 (filter (\<lambda>e. e_accountId e = u) (ledgerEntries db))"
  shows "getBalance U db acct =
     Inr (foldl (\<lambda>acc e. if e_entryType e = ''credit'' then acc + e_amount e
                     else if e_entryType e = ''debit'' then acc - e_amount e
                     else acc)
           0 (filter (\<lambda>e. e_accountId e = u) (ledgerEntries db)))
   \<and> getBalance U db acct =
     Inr (sum_list (map e_amount
        (filter (\<lambda>e. e_entryType e = ''credit'')
           (filter (\<lambda>e. e_accountId e = u) (ledgerEntries db))))
     - sum_list (map e_amount
        (filter (\<lambda>e. e_entryType e = ''debit'')
           (filter (\<lambda>e. e_accountId e = u) (ledgerEntries db)))))"
proof -
  have g: "getBalance U db acct =
             Inr (foldl exact_step 0 (filter (\<lambda>e. e_accountId e = u) (ledgerEntries db)))"
    using assms(1) balance_loop_exact [OF assms(2) scale8_0]
    by (simp add: getBalance_def ledgerEntry_findMany_def)
  show ?thesis
    using g foldl_exact_step_sums [of 0 "filter (\<lambda>e. e_accountId e = u) (ledgerEntries db)"]
    by (simp add: exact_step_eq [symmetric])
qed

text \<open>
  On the ledger after the transfer of 40 from A, which held 100, to B: the balance of A
  is 60.
\<close>

theorem getBalance_sums_within_precision_witness:
  "client_uuid example_readers acct_A = Some acct_A
   \<and> running_totals_fit 0
        (filter (\<lambda>e. e_accountId e = acct_A) (ledgerEntries (committed_db 100 40 ''USD'')))
   \<and> getBalance example_readers (committed_db 100 40 ''USD'') acct_A = Inr 60"
proof -
  have r: "client_uuid example_readers acct_A = Some acct_A"
    by (simp add: reads_A)
  have f: "running_totals_fit 0
        (filter (\<lambda>e. e_accountId e = acct_A) (ledgerEntries (committed_db 100 40 ''USD'')))"
    by (simp add: committed_db_def funded_db_def accts_distinct scale8_def exact_step_def)
  have s: "sum_list (map e_amount
        (filter (\<lambda>e. e_entryType e = ''credit'')
           (filter (\<lambda>e. e_accountId e = acct_A) (ledgerEntries (committed_db 100 40 ''USD'')))))
     - sum_list (map e_amount
        (filter (\<lambda>e. e_entryType e = ''debit'')
           (filter (\<lambda>e. e_accountId e = acct_A) (ledgerEntries (committed_db 100 40 ''USD'')))))
     = 60"
    by (simp add: committed_db_def funded_db_def accts_distinct)
  have g: "getBalance example_readers (committed_db 100 40 ''USD'') acct_A = Inr 60"
    using getBalance_sums_within_precision [OF r f, THEN conjunct2] unfolding s .
  show ?thesis
    using r f g by blast
qed

text \<open>
  Claim C1 as stated fails on totals of more than 20 significant digits: with two credits
  of \<open>600000000000.00000001\<close> on account A the sum of the credits is
  \<open>1200000000000.00000002\<close>, and \<^verbatim>\<open>getBalance\<close> returns \<open>1200000000000\<close>.
\<close>

theorem getBalance_rounds_large_totals:
  "getBalance example_readers two_credits_db acct_A = Inr 1200000000000
   \<and> sum_list (map e_amount
        (filter (\<lambda>e. e_entryType e = ''credit'')
           (filter (\<lambda>e. e_accountId e = acct_A) (ledgerEntries two_credits_db))))
     - sum_list (map e_amount
        (filter (\<lambda>e. e_entryType e = ''debit'')
           (filter (\<lambda>e. e_accountId e = acct_A) (ledgerEntries two_credits_db))))
     = 60000000000000000001 / 50000000
   \<and> (1200000000000 :: rat) \<noteq> 60000000000000000001 / 50000000"
proof -
  have p1: "precision20 (60000000000000000001 / 100000000) = 60000000000000000001 / 100000000"
    by (rule precision20_exact) (simp_all add: scale8_def)
  have n: "floor_log10 (60000000000000000001 / 50000000) = 12"
    by (simp add: floor_log10_def digits10.simps)
  have p2: "precision20 (60000000000000000001 / 50000000) = 1200000000000"
    by (simp add: precision20_def n pow10_def round_half_up_def)
  have g: "getBalance example_readers two_credits_db acct_A = Inr 1200000000000"
    by (simp add: getBalance_def ledgerEntry_findMany_def two_credits_db_def reads_A
        plus_decimal_def p1 p2)
  have s: "sum_list (map e_amount
        (filter (\<lambda>e. e_entryType e = ''credit'')
           (filter (\<lambda>e. e_accountId e = acct_A) (ledgerEntries two_credits_db))))
     - sum_list (map e_amount
        (filter (\<lambda>e. e_entryType e = ''debit'')
           (filter (\<lambda>e. e_accountId e = acct_A) (ledgerEntries two_credits_db))))
     = 60000000000000000001 / 50000000"
    by (simp add: two_credits_db_def)
  show ?thesis
    using g s by simp
qed

section \<open>The decision step\<close>

text \<open>
  Claim C2. A transfer reaches the decision step when both lock statements accept their
  identifier and both accounts are found. Then the source balance is derived from the
  ledger and compared with the amount. If the balance is less than the amount the
  callback throws \<^verbatim>\<open>UnprocessableEntity("insufficient funds")\<close>: the transfer returns that
  error and the storage differs from the one before the call in the lock log only, so no
  ledger entry and no transaction record is written. Otherwise the callback continues
  with the write phase.
\<close>

theorem transfer_decides_on_rederived_balance:
  assumes "cast_uuid U src \<noteq> None" and "cast_uuid U dst \<noteq> None"
    and "account_findUnique U db src = Inr (Some s)"
    and "account_findUnique U db dst = Inr (Some d)"
  shows "\<exists>balance. getBalance U db src = Inr balance
       \<and> transfer_tx U g src dst amount cur db =
           (if lessThan_decimal (Dec balance) amount
            then (Inl (UnprocessableEntity ''insufficient funds''),
                  db\<lparr>lockLog := lockLog db @ lockedIds src dst\<rparr>)
            else write_phase U g src dst amount cur
                   (db\<lparr>lockLog := lockLog db @ lockedIds src dst\<rparr>))
       \<and> (lessThan_decimal (Dec balance) amount \<longrightarrow>
            transfer U g db src dst (Numeral amount) cur =
              (Inl (UnprocessableEntity ''insufficient funds''),
               db\<lparr>lockLog := lockLog db @ lockedIds src dst\<rparr>))"
proof -
  from assms(1,2) obtain cs cd where c: "cast_uuid U src = Some cs" "cast_uuid U dst = Some cd"
    by auto
  from account_findUnique_Some [OF assms(3)] obtain u where "client_uuid U src = Some u"
    by blast
  then obtain balance where b: "getBalance U db src = Inr balance"
    by (simp add: getBalance_def ledgerEntry_findMany_def)
  show ?thesis
    using b transfer_tx_decision [OF c assms(3,4) b, of g amount cur]
    by (simp add: transfer_def prisma_transaction_def)
qed

text \<open>
  On the example ledger, where A holds 100: a transfer of 100.50 is refused, a transfer
  of 40 reaches the write phase, which commits.
\<close>

theorem transfer_decides_on_rederived_balance_witness:
  "cast_uuid example_readers acct_A \<noteq> None \<and> cast_uuid example_readers acct_B \<noteq> None
   \<and> account_findUnique example_readers scenario_db acct_A = Inr (Some (accounts scenario_db ! 0))
   \<and> account_findUnique example_readers scenario_db acct_B = Inr (Some (accounts scenario_db ! 1))
   \<and> getBalance example_readers scenario_db acct_A = Inr 100
   \<and> transfer example_readers scenario_generated scenario_db acct_A acct_B
        (Numeral (Dec (201 / 2))) ''USD'' =
     (Inl (UnprocessableEntity ''insufficient funds''),
      scenario_db\<lparr>lockLog := [acct_A, acct_B]\<rparr>)
   \<and> transfer_tx example_readers scenario_generated acct_A acct_B (Dec 40) ''USD'' scenario_db =
     (Inr (committed_result 40 ''USD''), committed_db 100 40 ''USD'')"
proof -
  have ca: "cast_uuid example_readers acct_A \<noteq> None"
    by (simp add: reads_A)
  have cb: "cast_uuid example_readers acct_B \<noteq> None"
    by (simp add: reads_B)
  have a: "account_findUnique example_readers scenario_db acct_A =
             Inr (Some (accounts scenario_db ! 0))"
    unfolding scenario_db_def by (rule funded_find_A)
  have b: "account_findUnique example_readers scenario_db acct_B =
             Inr (Some (accounts scenario_db ! 1))"
    unfolding scenario_db_def by (rule funded_find_B)
  have bal: "getBalance example_readers scenario_db acct_A = Inr 100"
    unfolding scenario_db_def by (rule funded_balance_A) (rule precision20_100)
  have l: "lockLog scenario_db = []"
    unfolding scenario_db_def by (rule funded_lockLog)
  have w: "write_phase example_readers scenario_generated acct_A acct_B (Dec 40) ''USD''
             (scenario_db\<lparr>lockLog := [acct_A, acct_B]\<rparr>)
           = (Inr (committed_result 40 ''USD''), committed_db 100 40 ''USD'')"
    unfolding scenario_db_def
    by (rule funded_write)
       (simp_all add: binary64_40 binary64_60 decimal_20_8_40 decimal_20_8_60
          precision20_40 precision20_60 precision20_100 del: decimal_20_8.simps)
  have 1: "transfer example_readers scenario_generated scenario_db acct_A acct_B
        (Numeral (Dec (201 / 2))) ''USD'' =
     (Inl (UnprocessableEntity ''insufficient funds''),
      scenario_db\<lparr>lockLog := [acct_A, acct_B]\<rparr>)"
    using transfer_decides_on_rederived_balance
            [OF ca cb a b, of scenario_generated "Dec (201 / 2)" "''USD''"]
    by (simp add: bal l locks_A_B)
  have 2: "transfer_tx example_readers scenario_generated acct_A acct_B (Dec 40) ''USD''
             scenario_db =
     (Inr (committed_result 40 ''USD''), committed_db 100 40 ''USD'')"
    using transfer_decides_on_rederived_balance
            [OF ca cb a b, of scenario_generated "Dec 40" "''USD''"]
    by (simp add: bal l locks_A_B w)
  show ?thesis
    using ca cb a b bal 1 2 by blast
qed

section \<open>Atomicity of rejected transfers\<close>

text \<open>
  Claim C3. Whenever \<^verbatim>\<open>POST /transfers\<close> replies with an error (a validation failure, a
  missing account, insufficient funds, or any other failure), the account, transaction
  and ledger tables are exactly as they were before the call; in particular the number
  of ledger entries of every account is unchanged and no transaction row is added.
\<close>

theorem post_transfers_error_leaves_tables:
  assumes "post_transfers U g db body = (ErrorJson status msg, db')"
  shows "accounts db' = accounts db \<and> transactions db' = transactions db
       \<and> ledgerEntries db' = ledgerEntries db
       \<and> ledgerEntry_count U db' a = ledgerEntry_count U db a"
proof -
  have "accounts db' = accounts db \<and> transactions db' = transactions db
       \<and> ledgerEntries db' = ledgerEntries db"
    using assms unfolding post_transfers_def
    by (auto split: option.splits if_splits sum.splits prod.splits error.splits
             dest: transfer_Inl_tables)
  then show ?thesis
    by (simp add: ledgerEntry_count_def ledgerEntry_findMany_def split: option.splits)
qed

text \<open>Scenario 1 of the specification: 100.50 from an account that holds 100.\<close>

theorem post_transfers_error_leaves_tables_witness:
  "post_transfers example_readers scenario_generated scenario_db
       (transfer_request acct_A acct_B (201 / 2) ''USD'') =
     (ErrorJson 422 ''insufficient funds'', scenario_db\<lparr>lockLog := [acct_A, acct_B]\<rparr>)
   \<and> transactions (scenario_db\<lparr>lockLog := [acct_A, acct_B]\<rparr>) = transactions scenario_db
   \<and> ledgerEntries (scenario_db\<lparr>lockLog := [acct_A, acct_B]\<rparr>) = ledgerEntries scenario_db
   \<and> ledgerEntry_count example_readers (scenario_db\<lparr>lockLog := [acct_A, acct_B]\<rparr>) acct_A =
       ledgerEntry_count example_readers scenario_db acct_A
   \<and> ledgerEntry_count example_readers (scenario_db\<lparr>lockLog := [acct_A, acct_B]\<rparr>) acct_B =
       ledgerEntry_count example_readers scenario_db acct_B"
proof -
  have r: "post_transfers example_readers scenario_generated scenario_db
             (transfer_request acct_A acct_B (201 / 2) ''USD'') =
           (ErrorJson 422 ''insufficient funds'', scenario_db\<lparr>lockLog := [acct_A, acct_B]\<rparr>)"
    unfolding scenario_db_def
    by (rule funded_post_transfers_insufficient) (simp_all add: precision20_100)
  show ?thesis
    using r post_transfers_error_leaves_tables [OF r, of acct_A]
          post_transfers_error_leaves_tables [OF r, of acct_B]
    by simp
qed

section \<open>Pairing of ledger entries\<close>

text \<open>
  Claim C4. After a transfer that commits, on a storage whose ledger entries all refer to
  stored transactions, exactly two ledger entries carry the identifier of the returned
  transaction record: a \<open>debit\<close> entry on the source account and a \<open>credit\<close> entry on the
  destination account (the accounts the client reads the two identifiers of the request
  as), both with the amount and the currency of the record. The record is the only
  transaction with that identifier.
\<close>

theorem transfer_commit_pairs_entries:
  assumes "transfer U g db src dst amount cur = (Inr t, db')"
    and "fk_ledgerEntry_transaction db"
  shows "\<exists>s d. client_uuid U src = Some s \<and> client_uuid U dst = Some d
       \<and> filter (\<lambda>e. e_transactionId e = t_id t) (ledgerEntries db') =
           [\<lparr>e_id = g_debitId g, e_accountId = s, e_transactionId = t_id t,
             e_entryType = ''debit'', e_amount = t_amount t, e_currency = t_currency t,
             e_createdAt = g_now g\<rparr>,
            \<lparr>e_id = g_creditId g, e_accountId = d, e_transactionId = t_id t,
             e_entryType = ''credit'', e_amount = t_amount t, e_currency = t_currency t,
             e_createdAt = g_now g\<rparr>]
       \<and> filter (\<lambda>r. t_id r = t_id t) (transactions db') = [t]
       \<and> t_type t = ''transfer'' \<and> t_status t = ''completed''
       \<and> t_sourceAccountId t = Some s \<and> t_destinationAccountId t = Some d
       \<and> t_currency t = cur"
proof -
  from transfer_Inr_write_phase [OF assms(1)] obtain a where
    w: "write_phase U g src dst a cur (db\<lparr>lockLog := lockLog db @ lockedIds src dst\<rparr>)
          = (Inr t, db')"
    by blast
  from write_phase_Inr [OF w] obtain s d v where
    rs: "client_uuid U src = Some s" and rd: "client_uuid U dst = Some d"
    and t: "t = \<lparr>t_id = g_txId g, t_type = ''transfer'', t_sourceAccountId = Some s,
             t_destinationAccountId = Some d, t_amount = v, t_currency = cur,
             t_status = ''completed'', t_createdAt = g_now g\<rparr>"
    and fresh: "g_txId g \<notin> set (map t_id (transactions db))"
    and txs: "transactions db' = transactions db @ [t]"
    and les: "ledgerEntries db' = ledgerEntries db @
           [\<lparr>e_id = g_debitId g, e_accountId = s, e_transactionId = g_txId g,
             e_entryType = ''debit'', e_amount = v, e_currency = cur, e_createdAt = g_now g\<rparr>,
            \<lparr>e_id = g_creditId g, e_accountId = d, e_transactionId = g_txId g,
             e_entryType = ''credit'', e_amount = v, e_currency = cur, e_createdAt = g_now g\<rparr>]"
    by auto
  have old_e: "filter (\<lambda>e. e_transactionId e = g_txId g) (ledgerEntries db) = []"
    using fresh assms(2) unfolding fk_ledgerEntry_transaction_def
    by (force simp: filter_empty_conv)
  have old_t: "filter (\<lambda>r. t_id r = g_txId g) (transactions db) = []"
    using fresh by (force simp: filter_empty_conv)
  show ?thesis
    using old_e old_t rs rd by (simp add: t txs les)
qed

text \<open>Scenario 2 of the specification: 40 from A, which holds 100, to B.\<close>

theorem transfer_commit_pairs_entries_witness:
  "transfer example_readers scenario_generated scenario_db acct_A acct_B (Numeral (Dec 40))
       ''USD'' =
     (Inr (committed_result 40 ''USD''), committed_db 100 40 ''USD'')
   \<and> fk_ledgerEntry_transaction scenario_db
   \<and> filter (\<lambda>e. e_transactionId e = t_id (committed_result 40 ''USD''))
        (ledgerEntries (committed_db 100 40 ''USD'')) =
       [\<lparr>e_id = ''00000000-0000-4000-8000-000000000004'', e_accountId = acct_A,
         e_transactionId = ''00000000-0000-4000-8000-000000000003'', e_entryType = ''debit'',
         e_amount = 40, e_currency = ''USD'', e_createdAt = 2\<rparr>,
        \<lparr>e_id = ''00000000-0000-4000-8000-000000000005'', e_accountId = acct_B,
         e_transactionId = ''00000000-0000-4000-8000-000000000003'', e_entryType = ''credit'',
         e_amount = 40, e_currency = ''USD'', e_createdAt = 2\<rparr>]"
proof -
  have fk: "fk_ledgerEntry_transaction scenario_db"
    unfolding scenario_db_def by (rule funded_fk_transaction)
  have p: "filter (\<lambda>e. e_transactionId e = t_id (committed_result 40 ''USD''))
             (ledgerEntries (committed_db 100 40 ''USD'')) =
       [\<lparr>e_id = ''00000000-0000-4000-8000-000000000004'', e_accountId = acct_A,
         e_transactionId = ''00000000-0000-4000-8000-000000000003'', e_entryType = ''debit'',
         e_amount = 40, e_currency = ''USD'', e_createdAt = 2\<rparr>,
        \<lparr>e_id = ''00000000-0000-4000-8000-000000000005'', e_accountId = acct_B,
         e_transactionId = ''00000000-0000-4000-8000-000000000003'', e_entryType = ''credit'',
         e_amount = 40, e_currency = ''USD'', e_createdAt = 2\<rparr>]"
    using transfer_commit_pairs_entries [OF scenario_transfer_40 fk, of "''USD''"]
    by (simp add: committed_result_def scenario_generated_def reads_A reads_B)
  show ?thesis
    using scenario_transfer_40 [of "''USD''"] fk p by blast
qed

section \<open>Non-negative balances\<close>

text \<open>
  Claim C5 (after any sequence of transfer attempts, every balance is non-negative if it
  was so before). The code at a request it accepts: account A holds
  \<open>99999999999.999995\<close> and B holds 0, both non-negative, and
  \<^verbatim>\<open>POST /transfers\<close> is asked to move \<open>99999999999.999995\<close> from A to B. The funds check
  compares the decimals and passes; the rows are written with \<^verbatim>\<open>amount.toNumber()\<close>, which
  is \<open>100000000000\<close>; the reply is 201 and the balance of A derived from the ledger is
  \<open>-0.000005\<close>.
\<close>

theorem rounded_debit_overdraws_source:
  "getBalance example_readers (funded_db (19999999999999999 / 200000)) acct_A =
     Inr (19999999999999999 / 200000)
   \<and> getBalance example_readers (funded_db (19999999999999999 / 200000)) acct_B = Inr 0
   \<and> post_transfers example_readers scenario_generated (funded_db (19999999999999999 / 200000))
        (transfer_request acct_A acct_B (19999999999999999 / 200000) ''USD'') =
       (Json 201 (committed_result 100000000000 ''USD''),
        committed_db (19999999999999999 / 200000) 100000000000 ''USD'')
   \<and> getBalance example_readers
        (committed_db (19999999999999999 / 200000) 100000000000 ''USD'') acct_A =
       Inr (- (1 / 200000))"
proof -
  have s: "decimal_20_8 (binary64 (19999999999999999 / 200000)) = Inr 100000000000"
    by (simp only: binary64_below_1e11 decimal_20_8_1e11)
  have d: "(19999999999999999 / 200000 - 100000000000 :: rat) = - (1 / 200000)"
    by simp
  have n: "decimal_20_8 (binary64 (19999999999999999 / 200000 - 100000000000)) =
             Inr (19999999999999999 / 200000 - 100000000000)"
    by (simp only: d binary64_neg_5e6 decimal_20_8_neg_5e6)
  have c: "decimal_20_8 (binary64 100000000000) = Inr 100000000000"
    by (simp only: binary64_1e11 decimal_20_8_1e11)
  have pd: "precision20 (19999999999999999 / 200000 - 100000000000) =
              19999999999999999 / 200000 - 100000000000"
    by (simp only: d precision20_neg_5e6)
  have p: "post_transfers example_readers scenario_generated
        (funded_db (19999999999999999 / 200000))
        (transfer_request acct_A acct_B (19999999999999999 / 200000) ''USD'') =
       (Json 201 (committed_result 100000000000 ''USD''),
        committed_db (19999999999999999 / 200000) 100000000000 ''USD'')"
    by (rule funded_post_transfers_cur
          [OF _ _ s precision20_below_1e11 pd precision20_1e11 n c _ toUpperCase_USD])
       simp_all
  have b: "getBalance example_readers
             (committed_db (19999999999999999 / 200000) 100000000000 ''USD'') acct_A =
           Inr (- (1 / 200000))"
    by (simp add: getBalance_def ledgerEntry_findMany_def committed_db_def funded_db_def
        reads_A accts_distinct plus_decimal_def minus_decimal_def precision20_below_1e11
        precision20_neg_5e6)
  show ?thesis
    using p b by (simp add: funded_balance_A precision20_below_1e11 funded_balance_B)
qed

section \<open>Lock order\<close>



section \<open>Missing accounts and the stated currency\<close>

text \<open>
  The existence check of \<^verbatim>\<open>transfer\<close>: when both lock statements and both lookups are
  executed and one account is not found, the transfer ends in
  \<^verbatim>\<open>UnprocessableEntity("Account does not exist")\<close> and the tables are untouched.
\<close>

lemma transfer_missing_account:
  assumes "cast_uuid U src \<noteq> None" and "cast_uuid U dst \<noteq> None"
    and "account_findUnique U db src = Inr s" and "account_findUnique U db dst = Inr d"
    and "s = None \<or> d = None"
  shows "transfer U g db src dst (Numeral amount) cur =
           (Inl (UnprocessableEntity ''Account does not exist''),
            db\<lparr>lockLog := lockLog db @ lockedIds src dst\<rparr>)"
  using assms
  by (auto simp: transfer_def prisma_transaction_def transfer_tx_def queryRaw_lock_def
        lockedIds_cases)

text \<open>
  Claim C7 (both accounts of a transfer must exist and use the stated currency, otherwise
  the transfer aborts and writes nothing). The code at a request it accepts: both
  accounts of the example ledger use USD, and \<^verbatim>\<open>POST /transfers\<close> is asked to move 40 from
  A to B in EUR. No statement of the route or of the service compares the currency of
  an account with the stated one: the reply is 201, and the transaction record and both
  ledger entries are written in EUR on the two USD accounts.
\<close>

theorem transfer_other_currency_commits:
  "map a_currency (accounts scenario_db) = [''USD'', ''USD'']
   \<and> post_transfers example_readers scenario_generated scenario_db
        (transfer_request acct_A acct_B 40 ''EUR'') =
       (Json 201 (committed_result 40 ''EUR''), committed_db 100 40 ''EUR'')
   \<and> t_currency (committed_result 40 ''EUR'') = ''EUR''
   \<and> map e_currency (ledgerEntries (committed_db 100 40 ''EUR'')) = [''USD'', ''EUR'', ''EUR'']
   \<and> map a_currency (accounts (committed_db 100 40 ''EUR'')) = [''USD'', ''USD'']"
proof -
  have p: "post_transfers example_readers scenario_generated scenario_db
        (transfer_request acct_A acct_B 40 ''EUR'') =
       (Json 201 (committed_result 40 ''EUR''), committed_db 100 40 ''EUR'')"
    unfolding scenario_db_def
    by (rule funded_post_transfers_cur [OF _ _ _ _ _ _ _ _ _ toUpperCase_EUR])
       (simp_all add: binary64_40 binary64_60 decimal_20_8_40 decimal_20_8_60
          precision20_40 precision20_60 precision20_100 del: decimal_20_8.simps)
  show ?thesis
    using p by (simp add: scenario_db_def funded_db_def committed_db_def committed_result_def)
qed

section \<open>Self-transfers\<close>

text \<open>
  The comparison of the route: a request whose two account identifiers are the same
  string is answered with status 400 and the storage is returned as it was, lock log
  included.
\<close>

lemma post_transfers_same_spelling:
  assumes "body_sourceAccountId body = body_destinationAccountId body"
  shows "snd (post_transfers U g db body) = db
       \<and> (fst (post_transfers U g db body) =
             ErrorJson 400 ''sourceAccountId and destinationAccountId must be different''
          \<or> fst (post_transfers U g db body) =
             ErrorJson 400 ''sourceAccountId, destinationAccountId, amount, currency required'')"
  using assms unfolding post_transfers_def
  by (auto split: option.splits)

lemma respelled_write:
  "write_phase example_readers scenario_generated acct_A acct_A_capitals (Dec 40) ''USD''
     (scenario_db\<lparr>lockLog := [acct_A_capitals, acct_A]\<rparr>)
   = (Inr respelled_result, respelled_db)"
  by (simp add: write_phase_def transaction_create_def ledgerEntry_create_def
      account_update_def getBalance_def ledgerEntry_findMany_def scenario_db_def funded_db_def
      scenario_generated_def respelled_result_def respelled_db_def reads_A reads_A_capitals
      accts_distinct plus_decimal_def minus_decimal_def Let_def binary64_40 binary64_100
      decimal_20_8_40 decimal_20_8_100 precision20_60 precision20_100
      del: decimal_20_8.simps)

text \<open>
  Claim C8 (a transfer whose source and destination are the same account is rejected at
  validation, before any lock and without touching storage). The code at a request it
  accepts: \<^verbatim>\<open>POST /transfers\<close> is asked to move 40 from A to A, the source identifier
  written with small hexadecimal digits and the destination identifier with capital
  ones. The route compares the two strings with \<^verbatim>\<open>===\<close>, which differ; the storage reads
  both as the identifier of A. Both lock statements are executed, the reply is 201, and
  a transaction record from A to A with its debit and its credit entry on A is written.
\<close>

theorem respelled_self_transfer_commits:
  "cast_uuid example_readers acct_A = Some acct_A
   \<and> cast_uuid example_readers acct_A_capitals = Some acct_A
   \<and> client_uuid example_readers acct_A = Some acct_A
   \<and> client_uuid example_readers acct_A_capitals = Some acct_A
   \<and> post_transfers example_readers scenario_generated scenario_db
        (transfer_request acct_A acct_A_capitals 40 ''USD'') =
       (Json 201 respelled_result, respelled_db)
   \<and> t_sourceAccountId respelled_result = t_destinationAccountId respelled_result
   \<and> lockLog respelled_db = [acct_A_capitals, acct_A]
   \<and> length (ledgerEntries respelled_db) = length (ledgerEntries scenario_db) + 2
   \<and> length (transactions respelled_db) = length (transactions scenario_db) + 1"
proof -
  have bal: "getBalance example_readers scenario_db acct_A = Inr 100"
    unfolding scenario_db_def by (rule funded_balance_A) (rule precision20_100)
  have a: "account_findUnique example_readers scenario_db acct_A =
             Inr (Some (accounts scenario_db ! 0))"
    unfolding scenario_db_def by (rule funded_find_A)
  have b: "account_findUnique example_readers scenario_db acct_A_capitals =
             Inr (Some (accounts scenario_db ! 0))"
    unfolding scenario_db_def by (rule funded_find_A_capitals)
  have l: "lockLog scenario_db = []"
    unfolding scenario_db_def by (rule funded_lockLog)
  have d: "transfer_tx example_readers scenario_generated acct_A acct_A_capitals (Dec 40)
             ''USD'' scenario_db = (Inr respelled_result, respelled_db)"
    by (subst transfer_tx_decision [OF _ _ a b bal])
       (simp_all add: reads_A reads_A_capitals locks_A_capitals l respelled_write)
  have p: "post_transfers example_readers scenario_generated scenario_db
        (transfer_request acct_A acct_A_capitals 40 ''USD'') =
       (Json 201 respelled_result, respelled_db)"
    by (simp add: post_transfers_def transfer_request_def isNaN_def lessThanOrEqualTo_def
        toUpperCase_USD accts_distinct transfer_def prisma_transaction_def d)
  show ?thesis
    using p by (simp add: reads_A reads_A_capitals respelled_result_def respelled_db_def)
qed

section \<open>Exact amounts\<close>

text \<open>
  Claim C9 (amounts are processed as exact decimals, and the recorded amounts equal the
  requested amount). The code at a request it accepts: A holds \<open>200000000000\<close> and
  \<^verbatim>\<open>POST /transfers\<close> is asked to move \<open>100000000000.00000001\<close> from A to B. The
  transaction record and both ledger entries carry \<^verbatim>\<open>amount.toNumber()\<close>, the binary64
  value \<open>100000000000\<close>, which is not the requested amount.
\<close>

theorem recorded_amount_is_binary64_rounded:
  "post_transfers example_readers scenario_generated (funded_db 200000000000)
        (transfer_request acct_A acct_B (10000000000000000001 / 100000000) ''USD'') =
       (Json 201 (committed_result 100000000000 ''USD''),
        committed_db 200000000000 100000000000 ''USD'')
   \<and> t_amount (committed_result 100000000000 ''USD'') = 100000000000
   \<and> map e_amount
        (filter (\<lambda>e. e_transactionId e = t_id (committed_result 100000000000 ''USD''))
           (ledgerEntries (committed_db 200000000000 100000000000 ''USD''))) =
       [100000000000, 100000000000]
   \<and> (100000000000 :: rat) \<noteq> 10000000000000000001 / 100000000"
proof -
  have s: "decimal_20_8 (binary64 (10000000000000000001 / 100000000)) = Inr 100000000000"
    by (simp only: binary64_above_1e11 decimal_20_8_1e11)
  have d: "(200000000000 - 100000000000 :: rat) = 100000000000"
    by simp
  have c: "decimal_20_8 (binary64 100000000000) = Inr 100000000000"
    by (simp only: binary64_1e11 decimal_20_8_1e11)
  have n: "decimal_20_8 (binary64 (200000000000 - 100000000000)) =
             Inr (200000000000 - 100000000000)"
    by (simp only: d c)
  have pd: "precision20 (200000000000 - 100000000000) = 200000000000 - 100000000000"
    by (simp only: d precision20_1e11)
  have p: "post_transfers example_readers scenario_generated (funded_db 200000000000)
        (transfer_request acct_A acct_B (10000000000000000001 / 100000000) ''USD'') =
       (Json 201 (committed_result 100000000000 ''USD''),
        committed_db 200000000000 100000000000 ''USD'')"
    by (rule funded_post_transfers_cur
          [OF _ _ s precision20_2e11 pd precision20_1e11 n c _ toUpperCase_USD])
       simp_all
  have e: "map e_amount
        (filter (\<lambda>e. e_transactionId e = t_id (committed_result 100000000000 ''USD''))
           (ledgerEntries (committed_db 200000000000 100000000000 ''USD''))) =
       [100000000000, 100000000000]"
    by (simp add: committed_db_def committed_result_def funded_db_def)
  show ?thesis
    using p e by (simp add: committed_result_def)
qed

section \<open>The ledger of an unknown account\<close>

text \<open>
  Claim C10, as amended. For an account identifier that the storage client reads and for
  which no account exists (on a storage whose ledger entries all refer to stored
  accounts), \<^verbatim>\<open>GET /accounts/:id/ledger\<close> does not answer with a not-found error: for any
  limit and any offset that the client accepts as 64-bit integers, the offset not
  negative, it answers 200 with an empty entry list, total 0 and \<^verbatim>\<open>hasMore\<close> false.
\<close>

theorem get_ledger_unknown_account:
  assumes "client_uuid U i = Some u"
    and "u \<notin> set (map a_id (accounts db))" and "fk_ledgerEntry_account db"
    and "client_int64 (min_1000 (or_default
           (parseInt (case limit of None \<Rightarrow> code_units ''100'' | Some l \<Rightarrow> l)) (Num 100)))
         = Some t"
    and "client_int64 (or_default
           (parseInt (case offset of None \<Rightarrow> code_units ''0'' | Some f \<Rightarrow> f)) (Num 0))
         = Some s"
    and "0 \<le> s"
  shows "get_ledger U db i limit offset =
           Json 200
              \<lparr>p_entries = [], p_total = 0,
               p_limit = min_1000 (or_default
                   (parseInt (case limit of None \<Rightarrow> code_units ''100'' | Some l \<Rightarrow> l))
                   (Num 100)),
               p_offset = or_default
                   (parseInt (case offset of None \<Rightarrow> code_units ''0'' | Some f \<Rightarrow> f)) (Num 0),
               p_hasMore = False\<rparr>"
  using assms(6) has_more_empty [OF assms(5,6)]
  unfolding get_ledger_def Let_def ledgerEntry_findMany_page_def ledgerEntry_count_def
    no_account_no_entries [OF assms(1-3)] assms(4) assms(5)
  by simp

text \<open>The ledger of an unknown account with \<^verbatim>\<open>limit=1\<close> and \<^verbatim>\<open>offset=0\<close>.\<close>

theorem get_ledger_unknown_account_witness:
  "client_uuid example_readers acct_unknown = Some acct_unknown
   \<and> acct_unknown \<notin> set (map a_id (accounts scenario_db))
   \<and> fk_ledgerEntry_account scenario_db
   \<and> client_int64 (min_1000 (or_default (parseInt (code_units ''1'')) (Num 100))) = Some 1
   \<and> client_int64 (or_default (parseInt (code_units ''0'')) (Num 0)) = Some 0
   \<and> get_ledger example_readers scenario_db acct_unknown
        (Some (code_units ''1'')) (Some (code_units ''0'')) =
       Json 200 \<lparr>p_entries = [], p_total = 0, p_limit = Num 1, p_offset = Num 0,
                 p_hasMore = False\<rparr>"
proof -
  have r: "client_uuid example_readers acct_unknown = Some acct_unknown"
    by (simp add: reads_unknown)
  have u: "acct_unknown \<notin> set (map a_id (accounts scenario_db))"
    unfolding scenario_db_def by (rule funded_unknown_account)
  have fk: "fk_ledgerEntry_account scenario_db"
    unfolding scenario_db_def by (rule funded_fk_account)
  have t: "client_int64 (min_1000 (or_default
             (parseInt (case Some (code_units ''1'') of None \<Rightarrow> code_units ''100''
                        | Some l \<Rightarrow> l)) (Num 100))) = Some 1"
    by (simp add: limit_1 client_int64_1 del: client_int64.simps)
  have s: "client_int64 (or_default
             (parseInt (case Some (code_units ''0'') of None \<Rightarrow> code_units ''0''
                        | Some f \<Rightarrow> f)) (Num 0)) = Some 0"
    by (simp add: offset_0 client_int64_0 del: client_int64.simps)
  have g: "get_ledger example_readers scenario_db acct_unknown
        (Some (code_units ''1'')) (Some (code_units ''0'')) =
       Json 200 \<lparr>p_entries = [], p_total = 0, p_limit = Num 1, p_offset = Num 0,
                 p_hasMore = False\<rparr>"
    using get_ledger_unknown_account [OF r u fk t s]
    by (simp add: limit_1 offset_0)
  have t': "client_int64 (min_1000 (or_default (parseInt (code_units ''1'')) (Num 100))) = Some 1"
    using t by simp
  have s': "client_int64 (or_default (parseInt (code_units ''0'')) (Num 0)) = Some 0"
    using s by simp
  show ?thesis
    using r u fk t' s' g by blast
qed

text \<open>
  Claim C10 as stated fails at the offset \<^verbatim>\<open>-1\<close>: the identifier is read by the client,
  no account has it, and the answer is an error, not an empty page.
\<close>

theorem get_ledger_negative_offset_fails:
  "client_uuid example_readers acct_unknown = Some acct_unknown
   \<and> acct_unknown \<notin> set (map a_id (accounts scenario_db))
   \<and> fk_ledgerEntry_account scenario_db
   \<and> get_ledger example_readers scenario_db acct_unknown None (Some (code_units ''-1'')) =
       ErrorJson 500 ''Internal error''"
proof -
  have r: "client_uuid example_readers acct_unknown = Some acct_unknown"
    by (simp add: reads_unknown)
  have u: "acct_unknown \<notin> set (map a_id (accounts scenario_db))"
    unfolding scenario_db_def by (rule funded_unknown_account)
  have fk: "fk_ledgerEntry_account scenario_db"
    unfolding scenario_db_def by (rule funded_fk_account)
  have e: "ledgerEntry_findMany example_readers scenario_db acct_unknown = Inr []"
    by (rule no_account_no_entries [OF r u fk])
  have g: "get_ledger example_readers scenario_db acct_unknown None (Some (code_units ''-1'')) =
             ErrorJson 500 ''Internal error''"
    by (simp add: get_ledger_def ledgerEntry_findMany_page_def ledgerEntry_count_def e
        limit_default offset_minus_1 client_int64_100 client_int64_minus_1
        del: client_int64.simps)
  show ?thesis
    using r u fk g by blast
qed

end
